theory Spec2Isabelle
  imports Complex_Main
begin

section \<open>Python values and strings\<close>

text \<open>
  The four source selectors of an \<open>Image\<close> (\<open>dt_source\<close>, \<open>elev_source\<close>,
  \<open>tcorr_source\<close>, \<open>tmax_source\<close>) are Python values that are either numbers or
  strings. Numbers are idealised as reals (exact arithmetic); strings are lists of
  ASCII characters.
\<close>

datatype pyval = PyNum real | PyStr string

text \<open>
  Python exceptions that end a call of this module: \<open>logging.error(...); sys.exit()\<close>,
  \<open>raise ValueError(msg)\<close>, a method missing on a number (\<open>(300).upper()\<close>) and a
  missing dictionary key.
\<close>

datatype pyerror = SysExit | ValueError string | AttributeError string | KeyError string

text \<open>
  A value computed by the Earth Engine substrate: either the value, or an error that
  surfaces only when the graph is evaluated. It is a second layer below the Python
  exceptions: building a graph that later fails is not a Python exception.
\<close>

datatype eeerror = EEError string

type_synonym 'a computed = "eeerror + 'a"

definition bind :: "'e + 'a \<Rightarrow> ('a \<Rightarrow> 'e + 'b) \<Rightarrow> 'e + 'b" where
  "bind m f = (case m of Inl e \<Rightarrow> Inl e | Inr x \<Rightarrow> f x)"

subsection \<open>\<open>str.upper\<close>, \<open>str.lower\<close>, \<open>str.startswith\<close>\<close>

definition lower_letters :: string where
  "lower_letters = ''abcdefghijklmnopqrstuvwxyz''"

definition upper_letters :: string where
  "upper_letters = ''ABCDEFGHIJKLMNOPQRSTUVWXYZ''"

definition upper_char :: "char \<Rightarrow> char" where
  "upper_char c = (case map_of (zip lower_letters upper_letters) c of Some d \<Rightarrow> d | None \<Rightarrow> c)"

definition lower_char :: "char \<Rightarrow> char" where
  "lower_char c = (case map_of (zip upper_letters lower_letters) c of Some d \<Rightarrow> d | None \<Rightarrow> c)"

definition upper :: "string \<Rightarrow> string" where
  "upper s = map upper_char s"

definition lower :: "string \<Rightarrow> string" where
  "lower s = map lower_char s"

definition startswith :: "string \<Rightarrow> string \<Rightarrow> bool" where
  "startswith s p = (take (length p) s = p)"

subsection \<open>\<open>float(x)\<close> on a string, and \<open>_is_number\<close>\<close>

text \<open>
  \<open>_is_number(x)\<close> is \<open>True\<close> exactly when \<open>float(x)\<close> does not raise. On a number
  \<open>float\<close> always succeeds. On a string it succeeds when the string, stripped of
  surrounding whitespace, follows the grammar of the Python language reference:
  \<^verbatim>\<open>
  floatvalue  ::= [sign] (floatnumber | infinity | nan)
  floatnumber ::= number [exponent]
  number      ::= [digitpart] "." digitpart | digitpart ["."]
  exponent    ::= ("e" | "E") [sign] digitpart
  digitpart   ::= digit (["_"] digit)*
  \<close>
  with \<open>inf\<close>, \<open>infinity\<close> and \<open>nan\<close> in any letter case. Only the success of the
  conversion is used by the source, so the model is a recogniser.
\<close>

definition is_digit :: "char \<Rightarrow> bool" where
  "is_digit c = (c \<in> set ''0123456789'')"

definition is_space :: "char \<Rightarrow> bool" where
  "is_space c = (c \<in> set [CHR '' '', CHR 0x09, CHR 0x0A, CHR 0x0B, CHR 0x0C, CHR 0x0D])"

definition strip :: "string \<Rightarrow> string" where
  "strip s = rev (dropWhile is_space (rev (dropWhile is_space s)))"

definition skip_sign :: "string \<Rightarrow> string" where
  "skip_sign s = (case s of [] \<Rightarrow> [] | c # cs \<Rightarrow> if c = CHR ''+'' \<or> c = CHR ''-'' then cs else s)"

text \<open>The characters left after the longest \<open>(["_"] digit)*\<close>.\<close>

fun digits_rest :: "string \<Rightarrow> string" where
  "digits_rest [] = []"
| "digits_rest [c] = (if is_digit c then [] else [c])"
| "digits_rest (c # d # ds) =
     (if is_digit c then digits_rest (d # ds)
      else if c = CHR ''_'' \<and> is_digit d then digits_rest ds
      else c # d # ds)"

definition digitpart :: "string \<Rightarrow> string option" where
  "digitpart s = (case s of [] \<Rightarrow> None | c # cs \<Rightarrow> if is_digit c then Some (digits_rest cs) else None)"

definition number :: "string \<Rightarrow> string option" where
  "number s =
     (case digitpart s of
        Some r \<Rightarrow>
          (case r of
             [] \<Rightarrow> Some []
           | c # r' \<Rightarrow>
               if c = CHR ''.'' then (case digitpart r' of Some r'' \<Rightarrow> Some r'' | None \<Rightarrow> Some r')
               else Some r)
      | None \<Rightarrow>
          (case s of [] \<Rightarrow> None | c # r \<Rightarrow> if c = CHR ''.'' then digitpart r else None))"

definition exponent :: "string \<Rightarrow> string option" where
  "exponent s =
     (case s of
        [] \<Rightarrow> Some []
      | c # r \<Rightarrow> if c = CHR ''e'' \<or> c = CHR ''E'' then digitpart (skip_sign r) else Some s)"

definition floatnumber :: "string \<Rightarrow> bool" where
  "floatnumber s = (case number s of None \<Rightarrow> False | Some r \<Rightarrow> exponent r = Some [])"

definition float_ok :: "string \<Rightarrow> bool" where
  "float_ok s =
     (let a = skip_sign (strip s)
      in lower a = ''inf'' \<or> lower a = ''infinity'' \<or> lower a = ''nan'' \<or> floatnumber a)"

fun is_number :: "pyval \<Rightarrow> bool" where
  "is_number (PyNum r) = True"
| "is_number (PyStr s) = float_ok s"

section \<open>The Earth Engine substrate\<close>

text \<open>
  The raster and collection substrate is an external service. It is modelled by what its
  operations denote: an image is a list of named bands, each a function from pixels to
  an optional real (\<open>None\<close> is a masked, no-data pixel), with a property map. A band built
  by \<open>ee.Image.constant(x)\<close> keeps the Python value \<open>x\<close> it was given; it is read as a
  number only when pixel arithmetic needs it, and the substrate has no arithmetic on a
  string.
\<close>

type_synonym pixel = "int \<times> int"

datatype raster = Constant pyval | Pixels "pixel \<Rightarrow> real option"

record image =
  bands :: "(string \<times> raster) list"
  props :: "string \<rightharpoonup> pyval"

subsection \<open>Pixel arithmetic\<close>

definition px_clamp :: "real \<Rightarrow> real \<Rightarrow> real option \<Rightarrow> real option" where
  "px_clamp lo hi v = map_option (\<lambda>x. max lo (min hi x)) v"

definition px_updateMask :: "real option \<Rightarrow> real option \<Rightarrow> real option" where
  "px_updateMask v m =
     (case v of
        None \<Rightarrow> None
      | Some x \<Rightarrow> (case m of None \<Rightarrow> None | Some b \<Rightarrow> if b = 0 then None else Some x))"

definition px_bool :: "bool \<Rightarrow> real" where
  "px_bool b = (if b then 1 else 0)"

definition px_lt :: "real option \<Rightarrow> real \<Rightarrow> real option" where
  "px_lt v c = map_option (\<lambda>x. px_bool (x < c)) v"

definition px_lte :: "real option \<Rightarrow> real \<Rightarrow> real option" where
  "px_lte v c = map_option (\<lambda>x. px_bool (x \<le> c)) v"

definition px_gt :: "real option \<Rightarrow> real \<Rightarrow> real option" where
  "px_gt v c = map_option (\<lambda>x. px_bool (c < x)) v"

definition px_gte :: "real option \<Rightarrow> real \<Rightarrow> real option" where
  "px_gte v c = map_option (\<lambda>x. px_bool (c \<le> x)) v"

definition px_And :: "real option \<Rightarrow> real option \<Rightarrow> real option" where
  "px_And a b =
     (case a of
        None \<Rightarrow> None
      | Some x \<Rightarrow> (case b of None \<Rightarrow> None | Some y \<Rightarrow> Some (px_bool (x \<noteq> 0 \<and> y \<noteq> 0))))"

definition px_subtract :: "real option \<Rightarrow> real option \<Rightarrow> real option" where
  "px_subtract a b =
     (case a of None \<Rightarrow> None | Some x \<Rightarrow> (case b of None \<Rightarrow> None | Some y \<Rightarrow> Some (x - y)))"

text \<open>
  \<open>image.where(test, value)\<close>: where the test is non-zero the pixel takes the value,
  elsewhere it is kept; a pixel masked in the input stays masked.
\<close>

definition px_where :: "real option \<Rightarrow> real option \<Rightarrow> real option \<Rightarrow> real option" where
  "px_where v test val =
     (case v of
        None \<Rightarrow> None
      | Some x \<Rightarrow> (case test of None \<Rightarrow> Some x | Some t \<Rightarrow> if t = 0 then Some x else val))"

subsection \<open>Images\<close>

definition number_of :: "pyval \<Rightarrow> real computed" where
  "number_of v = (case v of PyNum r \<Rightarrow> Inr r | PyStr s \<Rightarrow> Inl (EEError ''not a number''))"

definition string_of :: "pyval \<Rightarrow> string computed" where
  "string_of v = (case v of PyStr s \<Rightarrow> Inr s | PyNum r \<Rightarrow> Inl (EEError ''not a string''))"

definition pixels_of :: "raster \<Rightarrow> (pixel \<Rightarrow> real option) computed" where
  "pixels_of r =
     (case r of
        Pixels f \<Rightarrow> Inr f
      | Constant v \<Rightarrow> bind (number_of v) (\<lambda>x. Inr (\<lambda>p. Some x)))"

fun traverse :: "('a \<Rightarrow> 'e + 'b) \<Rightarrow> 'a list \<Rightarrow> 'e + 'b list" where
  "traverse f [] = Inr []"
| "traverse f (x # xs) = bind (f x) (\<lambda>y. bind (traverse f xs) (\<lambda>ys. Inr (y # ys)))"

definition ee_constant :: "pyval \<Rightarrow> image" where
  "ee_constant v = \<lparr>bands = [(''constant'', Constant v)], props = Map.empty\<rparr>"

definition ee_get :: "image \<Rightarrow> string \<Rightarrow> pyval computed" where
  "ee_get img k = (case props img k of Some v \<Rightarrow> Inr v | None \<Rightarrow> Inl (EEError (''no property '' @ k)))"

definition ee_set :: "string \<Rightarrow> pyval \<Rightarrow> image \<Rightarrow> image" where
  "ee_set k v img = img\<lparr>props := (props img)(k \<mapsto> v)\<rparr>"

definition ee_band :: "image \<Rightarrow> string \<Rightarrow> raster computed" where
  "ee_band img b = (case map_of (bands img) b of Some r \<Rightarrow> Inr r | None \<Rightarrow> Inl (EEError (''no band '' @ b)))"

text \<open>\<open>image.select(names, new_names)\<close>: the named bands, renamed; the properties stay.\<close>

definition ee_select :: "string list \<Rightarrow> string list \<Rightarrow> image \<Rightarrow> image computed" where
  "ee_select names new_names img =
     (if length names \<noteq> length new_names then Inl (EEError ''select: lengths differ'')
      else bind (traverse (ee_band img) names) (\<lambda>rs. Inr (img\<lparr>bands := zip new_names rs\<rparr>)))"

definition ee_rename :: "string list \<Rightarrow> image \<Rightarrow> image computed" where
  "ee_rename new_names img =
     (if length new_names \<noteq> length (bands img) then Inl (EEError ''rename: lengths differ'')
      else Inr (img\<lparr>bands := zip new_names (map snd (bands img))\<rparr>))"

text \<open>The only band of a single-band image, as pixels.\<close>

definition the_band :: "image \<Rightarrow> (pixel \<Rightarrow> real option) computed" where
  "the_band img = (case bands img of [(n, r)] \<Rightarrow> pixels_of r | _ \<Rightarrow> Inl (EEError ''not a single band''))"

text \<open>
  Pixel arithmetic on every band. The result is modelled without properties: the source
  restores the ones it needs with \<open>copyProperties\<close>, \<open>set\<close> and \<open>setMulti\<close>.
\<close>

definition map_pixels :: "(real option \<Rightarrow> real option) \<Rightarrow> image \<Rightarrow> image computed" where
  "map_pixels f img =
     bind (traverse (\<lambda>(n, r). bind (pixels_of r) (\<lambda>g. Inr (n, Pixels (\<lambda>p. f (g p))))) (bands img))
       (\<lambda>bs. Inr \<lparr>bands = bs, props = Map.empty\<rparr>)"

definition ee_clamp :: "real \<Rightarrow> real \<Rightarrow> image \<Rightarrow> image computed" where
  "ee_clamp lo hi img = bind (map_pixels (px_clamp lo hi) img) (\<lambda>r. Inr (r\<lparr>props := props img\<rparr>))"

definition ee_add :: "real \<Rightarrow> image \<Rightarrow> image computed" where
  "ee_add c img = map_pixels (map_option (\<lambda>x. x + c)) img"

definition copyProperties :: "image \<Rightarrow> string list \<Rightarrow> image \<Rightarrow> image" where
  "copyProperties src ks img =
     img\<lparr>props := (\<lambda>k. if k \<in> set ks \<and> props src k \<noteq> None then props src k else props img k)\<rparr>"

subsection \<open>Dates\<close>

text \<open>
  An \<open>ee.Date\<close> is a number of milliseconds since 1970-01-01T00:00 UTC. The calendar
  fields are those of the proleptic Gregorian calendar.
\<close>

definition ms_per_day :: int where
  "ms_per_day = 86400000"

definition days_of_civil :: "int \<Rightarrow> int \<Rightarrow> int \<Rightarrow> int" where
  "days_of_civil y m d =
     (let y' = (if m \<le> 2 then y - 1 else y);
          era = y' div 400;
          yoe = y' - era * 400;
          mp = (if m > 2 then m - 3 else m + 9);
          doy = (153 * mp + 2) div 5 + d - 1;
          doe = yoe * 365 + yoe div 4 - yoe div 100 + doy
      in era * 146097 + doe - 719468)"

definition civil_of_days :: "int \<Rightarrow> int \<times> int \<times> int" where
  "civil_of_days z0 =
     (let z = z0 + 719468;
          era = z div 146097;
          doe = z - era * 146097;
          yoe = (doe - doe div 1460 + doe div 36524 - doe div 146096) div 365;
          doy = doe - (365 * yoe + yoe div 4 - yoe div 100);
          mp = (5 * doy + 2) div 153;
          d = doy - (153 * mp + 2) div 5 + 1;
          m = (if mp < 10 then mp + 3 else mp - 9);
          y = yoe + era * 400 + (if m \<le> 2 then 1 else 0)
      in (y, m, d))"

definition date_year :: "int \<Rightarrow> int" where
  "date_year t = fst (civil_of_days (t div ms_per_day))"

definition date_month :: "int \<Rightarrow> int" where
  "date_month t = fst (snd (civil_of_days (t div ms_per_day)))"

text \<open>\<open>date.getRelative('day', 'year')\<close>: the 0-based day within the year.\<close>

definition getRelative_day_year :: "int \<Rightarrow> int" where
  "getRelative_day_year t = t div ms_per_day - days_of_civil (date_year t) 1 1"

text \<open>\<open>date.update(hour=0, minute=0, second=0)\<close> keeps the milliseconds of the second.\<close>

definition update_hms0 :: "int \<Rightarrow> int" where
  "update_hms0 t = (t div ms_per_day) * ms_per_day + t mod 1000"

definition date_to_time_0utc :: "int \<Rightarrow> int" where
  "date_to_time_0utc date = (update_hms0 date div 1000) * 1000"

subsection \<open>Collections\<close>

definition image_time :: "image \<Rightarrow> int option" where
  "image_time img = (case props img ''system:time_start'' of Some (PyNum t) \<Rightarrow> Some \<lfloor>t\<rfloor> | _ \<Rightarrow> None)"

text \<open>\<open>coll.filterDate(start, end)\<close>: the images whose time lies in \<open>[start, end)\<close>.\<close>

definition filterDate :: "int \<Rightarrow> int \<Rightarrow> image list \<Rightarrow> image list" where
  "filterDate start stop coll =
     filter (\<lambda>img. case image_time img of None \<Rightarrow> False | Some t \<Rightarrow> start \<le> t \<and> t < stop) coll"

text \<open>\<open>ee.Filter.calendarRange(doy, doy, 'day_of_year')\<close>; days of the year count from 1.\<close>

definition calendarRange_doy :: "int \<Rightarrow> int \<Rightarrow> image \<Rightarrow> bool" where
  "calendarRange_doy lo hi img =
     (case image_time img of
        None \<Rightarrow> False
      | Some t \<Rightarrow> lo \<le> getRelative_day_year t + 1 \<and> getRelative_day_year t + 1 \<le> hi)"

text \<open>\<open>coll.first()\<close> is null on an empty collection; using the null image is an error.\<close>

definition ee_first :: "'a list \<Rightarrow> 'a computed" where
  "ee_first xs = (case xs of [] \<Rightarrow> Inl (EEError ''empty collection'') | x # _ \<Rightarrow> Inr x)"

text \<open>
  A feature of a Tcorr table: the two fields the resolver reads from every candidate
  (\<open>INDEX\<close>, \<open>TCORR\<close>) and the properties its filters test.
\<close>

record feature =
  INDEX :: int
  TCORR :: real
  meta :: "string \<rightharpoonup> pyval"

definition filterMetadata :: "string \<Rightarrow> pyval \<Rightarrow> feature list \<Rightarrow> feature list" where
  "filterMetadata name v coll = filter (\<lambda>f. meta f name = Some v) coll"

definition sort_INDEX :: "feature list \<Rightarrow> feature list" where
  "sort_INDEX coll = sort_key INDEX coll"

text \<open>
  What the module reads from outside: the asset catalogue, today's date, Python's
  formatting of a number, and the two services \<open>collection\<close> hands its work to.
\<close>

type_synonym geometry = "pixel \<Rightarrow> bool"

record world =
  ImageCollection :: "string \<Rightarrow> image list"
  FeatureCollection :: "string \<Rightarrow> feature list"
  Image_asset :: "string \<Rightarrow> image computed"
  date_today :: string
  format_number :: "real \<Rightarrow> string"
  parse_date :: "string \<Rightarrow> int computed"
  intersects :: "geometry \<Rightarrow> image \<Rightarrow> bool"
  daily_et :: "image list computed \<Rightarrow> image list computed \<Rightarrow> nat \<Rightarrow> string \<Rightarrow> image list computed"

section \<open>The \<open>Image\<close> class\<close>

subsection \<open>Strings and lists on the server\<close>

text \<open>\<open>ee.String(s).split('_')\<close>: the tokens between separators, empty tokens kept.\<close>

fun split_on :: "char \<Rightarrow> string \<Rightarrow> string list" where
  "split_on sep [] = [[]]"
| "split_on sep (c # cs) =
     (if c = sep then [] # split_on sep cs
      else (case split_on sep cs of [] \<Rightarrow> [[c]] | t # ts \<Rightarrow> (c # t) # ts))"

text \<open>\<open>list.slice(start)\<close>: a negative start counts from the end and stops at the front.\<close>

definition slice_from :: "int \<Rightarrow> 'a list \<Rightarrow> 'a list" where
  "slice_from start xs = drop (nat (if start < 0 then int (length xs) + start else start)) xs"

text \<open>\<open>list.get(i)\<close> is an error outside the list.\<close>

definition list_get :: "'a list \<Rightarrow> nat \<Rightarrow> 'a computed" where
  "list_get xs i = (if i < length xs then Inr (xs ! i) else Inl (EEError ''list index out of range''))"

definition str_slice :: "nat \<Rightarrow> nat \<Rightarrow> string \<Rightarrow> string" where
  "str_slice a b s = take (b - a) (drop a s)"

subsection \<open>Construction\<close>

text \<open>
  The keyword arguments of \<open>Image.__init__\<close> with their defaults. Every attribute that the
  constructor computes on the server is a computed value: the constructor itself
  never fails. The attribute \<open>_lazy_etf\<close> that \<open>lazy_property\<close> adds is absent (\<open>None\<close>)
  until the first access of \<open>etf\<close>.
\<close>

record config =
  cfg_dt_source :: pyval
  cfg_elev_source :: pyval
  cfg_tcorr_source :: pyval
  cfg_tmax_source :: pyval
  cfg_elr_flag :: bool
  cfg_tdiff_threshold :: real

definition default_config :: config where
  "default_config =
     \<lparr>cfg_dt_source = PyStr ''DAYMET_MEDIAN_V1'',
      cfg_elev_source = PyStr ''ASSET'',
      cfg_tcorr_source = PyStr ''SCENE'',
      cfg_tmax_source = PyStr ''TOPOWX_MEDIAN_V0'',
      cfg_elr_flag = False,
      cfg_tdiff_threshold = 15\<rparr>"

record Image =
  lst :: "image computed"
  ndvi :: "image computed"
  index :: "pyval computed"
  time_start :: "pyval computed"
  scene_id :: "string computed"
  wrs2_tile :: "string computed"
  date :: "int computed"
  year :: "int computed"
  month :: "int computed"
  start_date :: "int computed"
  end_date :: "int computed"
  doy :: "int computed"
  dt_source :: pyval
  elev_source :: pyval
  tcorr_source :: pyval
  tmax_source :: pyval
  elr_flag :: bool
  tdiff_threshold :: real
  lazy_etf :: "image computed option"

definition build_scene_id :: "pyval computed \<Rightarrow> string computed" where
  "build_scene_id idx =
     bind idx (\<lambda>i. bind (string_of i) (\<lambda>s.
       (let scene_id = slice_from (- 3) (split_on CHR ''_'' s)
        in bind (list_get scene_id 0) (\<lambda>a.
           bind (list_get scene_id 1) (\<lambda>b.
           bind (list_get scene_id 2) (\<lambda>c. Inr (a @ ''_'' @ b @ ''_'' @ c)))))))"

definition build_wrs2_tile :: "string computed \<Rightarrow> string computed" where
  "build_wrs2_tile sid = bind sid (\<lambda>s. Inr (''p'' @ str_slice 5 8 s @ ''r'' @ str_slice 8 11 s))"

definition Image_init :: "image computed \<Rightarrow> config \<Rightarrow> Image" where
  "Image_init input_image cfg =
     (let idx = bind input_image (\<lambda>i. ee_get i ''system:index'');
          t0 = bind input_image (\<lambda>i. ee_get i ''system:time_start'');
          sid = build_scene_id idx;
          d = bind t0 (\<lambda>t. bind (number_of t) (\<lambda>r. Inr \<lfloor>r\<rfloor>));
          sd = bind d (\<lambda>t. Inr (date_to_time_0utc t))
      in \<lparr>lst = bind input_image (ee_select [''lst''] [''lst'']),
          ndvi = bind input_image (ee_select [''ndvi''] [''ndvi'']),
          index = idx,
          time_start = t0,
          scene_id = sid,
          wrs2_tile = build_wrs2_tile sid,
          date = d,
          year = bind d (\<lambda>t. Inr (date_year t)),
          month = bind d (\<lambda>t. Inr (date_month t)),
          start_date = sd,
          end_date = bind sd (\<lambda>t. Inr (t + ms_per_day)),
          doy = bind d (\<lambda>t. Inr (getRelative_day_year t + 1)),
          dt_source = cfg_dt_source cfg,
          elev_source = cfg_elev_source cfg,
          tcorr_source = cfg_tcorr_source cfg,
          tmax_source = cfg_tmax_source cfg,
          elr_flag = cfg_elr_flag cfg,
          tdiff_threshold = cfg_tdiff_threshold cfg,
          lazy_etf = None\<rparr>)"

subsection \<open>\<open>_dt\<close> and \<open>_elev\<close>\<close>

text \<open>
  A method called on a source value. On a number Python raises \<open>AttributeError\<close>; this
  is reached only for a value that \<open>_is_number\<close> rejected, so never in \<open>_dt\<close> and
  \<open>_elev\<close>, but in \<open>_tcorr\<close> it is reached for a numeric \<open>tmax_source\<close>.
\<close>

definition py_upper :: "pyval \<Rightarrow> pyerror + string" where
  "py_upper v = (case v of PyStr s \<Rightarrow> Inr (upper s) | PyNum r \<Rightarrow> Inl (AttributeError ''upper''))"

definition py_lower :: "pyval \<Rightarrow> pyerror + string" where
  "py_lower v = (case v of PyStr s \<Rightarrow> Inr (lower s) | PyNum r \<Rightarrow> Inl (AttributeError ''lower''))"

definition doy_filter :: "Image \<Rightarrow> image list \<Rightarrow> image list computed" where
  "doy_filter self coll = bind (doy self) (\<lambda>d. Inr (filter (calendarRange_doy d d) coll))"

definition dt_lookup :: "world \<Rightarrow> Image \<Rightarrow> string \<Rightarrow> image computed" where
  "dt_lookup w self asset =
     bind (doy_filter self (ImageCollection w asset)) (\<lambda>dt_coll.
     bind (ee_first dt_coll) (\<lambda>img. ee_clamp 6 25 img))"

definition Image_dt :: "world \<Rightarrow> Image \<Rightarrow> pyerror + image computed" where
  "Image_dt w self =
     (if is_number (dt_source self) then Inr (Inr (ee_constant (dt_source self)))
      else bind (py_upper (dt_source self)) (\<lambda>u.
        if u \<in> set [''DAYMET_MEDIAN_V0'']
          then Inr (dt_lookup w self ''projects/usgs-ssebop/dt/daymet_median_v0'')
        else if u = ''DAYMET_MEDIAN_V1''
          then Inr (dt_lookup w self ''projects/usgs-ssebop/dt/daymet_median_v1'')
        else Inl SysExit))"

text \<open>\<open>elev_image.select([0], ['elev'])\<close>: the first band, renamed.\<close>

definition select_first :: "string \<Rightarrow> image \<Rightarrow> image computed" where
  "select_first new_name img =
     (case bands img of
        [] \<Rightarrow> Inl (EEError ''no band 0'')
      | (n, r) # _ \<Rightarrow> Inr (img\<lparr>bands := [(new_name, r)]\<rparr>))"

text \<open>\<open>ee.Image(x)\<close>: the asset named by a string, the constant image of a number.\<close>

definition ee_Image :: "world \<Rightarrow> pyval \<Rightarrow> image computed" where
  "ee_Image w v = (case v of PyStr s \<Rightarrow> Image_asset w s | PyNum r \<Rightarrow> Inr (ee_constant (PyNum r)))"

definition Image_elev :: "world \<Rightarrow> Image \<Rightarrow> pyerror + image computed" where
  "Image_elev w self =
     bind
       (if is_number (elev_source self) then Inr (Inr (ee_constant (elev_source self)))
        else bind (py_upper (elev_source self)) (\<lambda>u.
          if u = ''ASSET'' then Inr (Image_asset w ''projects/usgs-ssebop/srtm_1km'')
          else if u = ''GTOPO'' then Inr (Image_asset w ''USGS/GTOPO30'')
          else if u = ''NED'' then Inr (Image_asset w ''USGS/NED'')
          else if u = ''SRTM'' then Inr (Image_asset w ''CGIAR/SRTM90_V4'')
          else bind (py_lower (elev_source self)) (\<lambda>l.
            if startswith l ''projects/'' \<or> startswith l ''users/''
              then Inr (ee_Image w (elev_source self))
            else Inl SysExit)))
       (\<lambda>elev_image. Inr (bind elev_image (select_first ''elev'')))"

subsection \<open>\<open>_tcorr\<close>\<close>

definition scene_coll_dict :: "(string \<times> string) list" where
  "scene_coll_dict =
     [(''CIMIS'', ''projects/usgs-ssebop/tcorr/cimis_scene''),
      (''DAYMET'', ''projects/usgs-ssebop/tcorr/daymet_scene''),
      (''GRIDMET'', ''projects/usgs-ssebop/tcorr/gridmet_scene''),
      (''CIMIS_MEDIAN_V1'', ''projects/usgs-ssebop/tcorr/cimis_median_v1_scene''),
      (''DAYMET_MEDIAN_V0'', ''projects/usgs-ssebop/tcorr/daymet_median_v0_scene''),
      (''DAYMET_MEDIAN_V1'', ''projects/usgs-ssebop/tcorr/daymet_median_v1_scene''),
      (''GRIDMET_MEDIAN_V1'', ''projects/usgs-ssebop/tcorr/gridmet_median_v1_scene''),
      (''TOPOWX_MEDIAN_V0'', ''projects/usgs-ssebop/tcorr/topowx_median_v0_scene'')]"

definition month_coll_dict :: "(string \<times> string) list" where
  "month_coll_dict =
     [(''CIMIS'', ''projects/usgs-ssebop/tcorr/cimis_monthly''),
      (''DAYMET'', ''projects/usgs-ssebop/tcorr/daymet_monthly''),
      (''GRIDMET'', ''projects/usgs-ssebop/tcorr/gridmet_monthly''),
      (''CIMIS_MEDIAN_V1'', ''projects/usgs-ssebop/tcorr/cimis_median_v1_monthly''),
      (''DAYMET_MEDIAN_V0'', ''projects/usgs-ssebop/tcorr/daymet_median_v0_monthly''),
      (''DAYMET_MEDIAN_V1'', ''projects/usgs-ssebop/tcorr/daymet_median_v1_monthly''),
      (''GRIDMET_MEDIAN_V1'', ''projects/usgs-ssebop/tcorr/gridmet_median_v1_monthly''),
      (''TOPOWX_MEDIAN_V0'', ''projects/usgs-ssebop/tcorr/topowx_median_v0_monthly'')]"

definition default_value_dict :: "(string \<times> real) list" where
  "default_value_dict =
     [(''CIMIS'', 0.978),
      (''DAYMET'', 0.978),
      (''GRIDMET'', 0.978),
      (''TOPOWX'', 0.978),
      (''CIMIS_MEDIAN_V1'', 0.978),
      (''DAYMET_MEDIAN_V0'', 0.978),
      (''DAYMET_MEDIAN_V1'', 0.978),
      (''GRIDMET_MEDIAN_V1'', 0.978),
      (''TOPOWX_MEDIAN_V0'', 0.978)]"

text \<open>\<open>d[k]\<close> on a Python dictionary raises \<open>KeyError\<close> for a missing key.\<close>

definition dict_get :: "(string \<times> 'v) list \<Rightarrow> string \<Rightarrow> pyerror + 'v" where
  "dict_get d k = (case map_of d k of Some v \<Rightarrow> Inr v | None \<Rightarrow> Inl (KeyError k))"

definition tcorr_of :: "feature list computed \<Rightarrow> pyval computed \<times> pyval computed" where
  "tcorr_of tcorr_coll =
     (let tcorr_ftr = bind tcorr_coll ee_first
      in (bind tcorr_ftr (\<lambda>f. Inr (PyNum (TCORR f))),
          bind tcorr_ftr (\<lambda>f. Inr (PyNum (of_int (INDEX f))))))"

text \<open>The three candidate collections of \<open>_tcorr\<close>.\<close>

definition default_coll :: "real \<Rightarrow> feature list" where
  "default_coll default_value = [\<lparr>INDEX = 2, TCORR = default_value, meta = Map.empty\<rparr>]"

definition month_coll :: "world \<Rightarrow> Image \<Rightarrow> string \<Rightarrow> feature list computed" where
  "month_coll w self month_id =
     bind (wrs2_tile self) (\<lambda>tile. bind (month self) (\<lambda>m.
       Inr (filterMetadata ''MONTH'' (PyNum (of_int m))
             (filterMetadata ''WRS2_TILE'' (PyStr tile) (FeatureCollection w month_id)))))"

definition scene_coll :: "world \<Rightarrow> Image \<Rightarrow> string \<Rightarrow> feature list computed" where
  "scene_coll w self scene_id_coll =
     bind (scene_id self) (\<lambda>sid.
       Inr (filterMetadata ''SCENE_ID'' (PyStr sid) (FeatureCollection w scene_id_coll)))"

definition Image_tcorr :: "world \<Rightarrow> Image \<Rightarrow> pyerror + pyval computed \<times> pyval computed" where
  "Image_tcorr w self =
     (if is_number (tcorr_source self) then Inr (Inr (tcorr_source self), Inr (PyNum 3))
      else
        bind (py_upper (tmax_source self)) (\<lambda>tmax_key.
        if tmax_key \<notin> set (map fst default_value_dict) then Inl SysExit
        else
          bind (dict_get default_value_dict tmax_key) (\<lambda>default_value.
          bind (dict_get month_coll_dict tmax_key) (\<lambda>month_id.
          bind (py_upper (tcorr_source self)) (\<lambda>u.
            if u = ''SCENE'' then
              bind (dict_get scene_coll_dict tmax_key) (\<lambda>scene_id_coll.
                Inr (tcorr_of
                  (bind (month_coll w self month_id) (\<lambda>mc.
                   bind (scene_coll w self scene_id_coll) (\<lambda>sc.
                     Inr (sort_INDEX (default_coll default_value @ mc @ sc)))))))
            else if u = ''MONTH'' then
              Inr (tcorr_of
                (bind (month_coll w self month_id) (\<lambda>mc.
                   Inr (sort_INDEX (default_coll default_value @ mc)))))
            else Inl SysExit)))))"

definition result_prop :: "pyerror + image computed \<Rightarrow> string \<Rightarrow> pyval option" where
  "result_prop r k = (case r of Inr (Inr img) \<Rightarrow> props img k | _ \<Rightarrow> None)"

subsection \<open>\<open>_tmax\<close>\<close>

definition c_to_k :: "image \<Rightarrow> image computed" where
  "c_to_k img =
     bind (ee_add 273.15 img)
       (\<lambda>r. Inr (copyProperties img [''system:index'', ''system:time_start''] r))"

text \<open>\<open>'CUSTOM_{}'.format(x)\<close>: a string is inserted as it is, a number as Python prints it.\<close>

definition py_format :: "world \<Rightarrow> pyval \<Rightarrow> string" where
  "py_format w v = (case v of PyStr s \<Rightarrow> s | PyNum r \<Rightarrow> format_number w r)"

definition median_image :: "world \<Rightarrow> Image \<Rightarrow> string \<Rightarrow> string \<Rightarrow> image computed" where
  "median_image w self asset_prefix median_version =
     bind (doy_filter self (ImageCollection w (asset_prefix @ median_version))) (\<lambda>c.
     bind (ee_first c) (\<lambda>i. Inr (ee_set ''TMAX_VERSION'' (PyStr median_version) i)))"

text \<open>
  \<open>ee.Algorithms.If(daily_coll.size().gt(0), daily_image, median_image)\<close>, with
  \<open>daily_image = ee.Image(daily_coll.first()).set('TMAX_VERSION', date_today)\<close>.
\<close>

definition daily_or_median :: "world \<Rightarrow> image list computed \<Rightarrow> image computed \<Rightarrow> image computed" where
  "daily_or_median w daily_coll median_img =
     (let daily_image =
            bind daily_coll (\<lambda>c. bind (ee_first c)
              (\<lambda>i. Inr (ee_set ''TMAX_VERSION'' (PyStr (date_today w)) i)))
      in bind daily_coll (\<lambda>c. if length c > 0 then daily_image else median_img))"

definition cimis_daily :: "world \<Rightarrow> Image \<Rightarrow> image list computed" where
  "cimis_daily w self =
     bind (start_date self) (\<lambda>s. bind (end_date self) (\<lambda>e.
     bind (traverse (ee_select [''Tx''] [''tmax''])
            (filterDate s e (ImageCollection w ''projects/climate-engine/cimis/daily'')))
       (traverse c_to_k)))"

definition daymet_daily :: "world \<Rightarrow> Image \<Rightarrow> image list computed" where
  "daymet_daily w self =
     bind (start_date self) (\<lambda>s. bind (end_date self) (\<lambda>e.
     bind (traverse (ee_select [''tmax''] [''tmax''])
            (filterDate s (e + ms_per_day) (ImageCollection w ''NASA/ORNL/DAYMET_V3'')))
       (traverse c_to_k)))"

definition gridmet_daily :: "world \<Rightarrow> Image \<Rightarrow> image list computed" where
  "gridmet_daily w self =
     bind (start_date self) (\<lambda>s. bind (end_date self) (\<lambda>e.
     traverse (ee_select [''tmmx''] [''tmax''])
       (filterDate s e (ImageCollection w ''IDAHO_EPSCOR/GRIDMET''))))"

definition Image_tmax :: "world \<Rightarrow> Image \<Rightarrow> pyerror + image computed" where
  "Image_tmax w self =
     bind
       (if is_number (tmax_source self) then
          Inr (bind (ee_rename [''tmax''] (ee_constant (tmax_source self)))
            (\<lambda>i. Inr (ee_set ''TMAX_VERSION'' (PyStr (''CUSTOM_'' @ py_format w (tmax_source self))) i)))
        else bind (py_upper (tmax_source self)) (\<lambda>u.
          if u = ''CIMIS'' then
            Inr (daily_or_median w (cimis_daily w self)
                  (median_image w self ''projects/usgs-ssebop/tmax/cimis_'' ''median_v1''))
          else if u = ''DAYMET'' then
            Inr (daily_or_median w (daymet_daily w self)
                  (median_image w self ''projects/usgs-ssebop/tmax/daymet_'' ''median_v0''))
          else if u = ''GRIDMET'' then
            Inr (daily_or_median w (gridmet_daily w self)
                  (median_image w self ''projects/usgs-ssebop/tmax/gridmet_'' ''median_v1''))
          else if u = ''CIMIS_MEDIAN_V1'' then
            Inr (median_image w self ''projects/usgs-ssebop/tmax/cimis_'' ''median_v1'')
          else if u = ''DAYMET_MEDIAN_V0'' then
            Inr (median_image w self ''projects/usgs-ssebop/tmax/daymet_'' ''median_v0'')
          else if u = ''DAYMET_MEDIAN_V1'' then
            Inr (median_image w self ''projects/usgs-ssebop/tmax/daymet_'' ''median_v1'')
          else if u = ''GRIDMET_MEDIAN_V1'' then
            Inr (median_image w self ''projects/usgs-ssebop/tmax/gridmet_'' ''median_v1'')
          else if u = ''TOPOWX_MEDIAN_V0'' then
            Inr (median_image w self ''projects/usgs-ssebop/tmax/topowx_'' ''median_v0'')
          else Inl SysExit))
       (\<lambda>tmax_image. Inr (bind tmax_image (\<lambda>i. Inr (ee_set ''TMAX_SOURCE'' (tmax_source self) i))))"

subsection \<open>\<open>etf\<close> and \<open>lazy_property\<close>\<close>

text \<open>
  The expression \<open>(lst * (-1) + tmax * tcorr + dt) / dt\<close> at one pixel. The substrate
  returns 0 for a division by 0, as division on the reals of HOL does.
\<close>

definition etf_expression :: "real option \<Rightarrow> real option \<Rightarrow> real option \<Rightarrow> real \<Rightarrow> real option" where
  "etf_expression l t d tcorr =
     (case l of None \<Rightarrow> None | Some lv \<Rightarrow>
      (case t of None \<Rightarrow> None | Some tv \<Rightarrow>
       (case d of None \<Rightarrow> None | Some dv \<Rightarrow> Some ((lv * (- 1) + tv * tcorr + dv) / dv))))"

definition etf_pixel :: "real option \<Rightarrow> real option \<Rightarrow> real option \<Rightarrow> real \<Rightarrow> real \<Rightarrow> real option" where
  "etf_pixel l t d tcorr tdiff =
     (let e0 = etf_expression l t d tcorr;
          e1 = px_updateMask e0 (px_lt e0 1.3);
          e2 = px_clamp 0 1.05 e1;
          e3 = px_updateMask e2 (px_lte (px_subtract t l) tdiff)
      in e3)"

definition etf_image ::
  "image computed \<Rightarrow> image computed \<Rightarrow> image computed \<Rightarrow> pyval computed \<Rightarrow> pyval computed \<Rightarrow>
   pyval computed \<Rightarrow> pyval computed \<Rightarrow> real \<Rightarrow> image computed" where
  "etf_image lst_img tmax_img dt_img tcorr tcorr_index idx t0 tdiff =
     bind lst_img (\<lambda>li. bind (the_band li) (\<lambda>l.
     bind tmax_img (\<lambda>ti. bind (the_band ti) (\<lambda>t.
     bind dt_img (\<lambda>di. bind (the_band di) (\<lambda>d.
     bind tcorr (\<lambda>tc. bind (number_of tc) (\<lambda>c.
     bind tcorr_index (\<lambda>tci. bind idx (\<lambda>i. bind t0 (\<lambda>ts.
       Inr \<lparr>bands = [(''etf'', Pixels (\<lambda>p. etf_pixel (l p) (t p) (d p) c tdiff))],
            props = [''system:index'' \<mapsto> i, ''system:time_start'' \<mapsto> ts,
                     ''TCORR'' \<mapsto> tc, ''TCORR_INDEX'' \<mapsto> tci]\<rparr>)))))))))))"

text \<open>The body of the property \<open>etf\<close>: the function that \<open>lazy_property\<close> decorates.\<close>

definition etf_fn :: "world \<Rightarrow> Image \<Rightarrow> pyerror + image computed" where
  "etf_fn w self =
     bind (Image_tcorr w self) (\<lambda>(tcorr, tcorr_index).
     bind (Image_tmax w self) (\<lambda>tmax.
     bind (Image_dt w self) (\<lambda>dt.
       Inr (etf_image (lst self) tmax dt tcorr tcorr_index (index self) (time_start self)
              (tdiff_threshold self)))))"

text \<open>
  \<open>lazy_property(fn)\<close>: the attribute \<open>'_lazy_' + fn.__name__\<close> is read with \<open>getattr\<close> and
  written with \<open>setattr\<close>; \<open>hasattr\<close> is \<open>getattr\<close> giving a value. The property returns
  its value and the object, which the first successful access has changed. When \<open>fn\<close>
  raises, nothing is stored.
\<close>

definition lazy_property ::
  "('s \<Rightarrow> 'v option) \<Rightarrow> ('v \<Rightarrow> 's \<Rightarrow> 's) \<Rightarrow> ('s \<Rightarrow> pyerror + 'v) \<Rightarrow> 's \<Rightarrow> (pyerror + 'v) \<times> 's" where
  "lazy_property getattr setattr fn self =
     (case getattr self of
        Some v \<Rightarrow> (Inr v, self)
      | None \<Rightarrow>
          (case fn self of
             Inl e \<Rightarrow> (Inl e, self)
           | Inr v \<Rightarrow>
               (let self' = setattr v self
                in (case getattr self' of Some v' \<Rightarrow> (Inr v', self') | None \<Rightarrow> (Inl (AttributeError ''_lazy''), self')))))"

definition etf :: "world \<Rightarrow> Image \<Rightarrow> (pyerror + image computed) \<times> Image" where
  "etf w self = lazy_property lazy_etf (\<lambda>v s. s\<lparr>lazy_etf := Some v\<rparr>) (etf_fn w) self"

text \<open>
  A sequence of accesses of \<open>etf\<close> on one object, each in the world of its moment: the
  values returned and the object at the end.
\<close>

fun access_all :: "world list \<Rightarrow> Image \<Rightarrow> (pyerror + image computed) list \<times> Image" where
  "access_all [] self = ([], self)"
| "access_all (w # ws) self =
     (let (r, self') = etf w self; (rs, self'') = access_all ws self' in (r # rs, self''))"

subsection \<open>\<open>_ndvi\<close>, \<open>_emissivity\<close>, \<open>_lst\<close>\<close>

text \<open>
  \<open>normalizedDifference(['nir', 'red'])\<close> at one pixel; where the two bands sum to zero
  the result is masked.
\<close>

definition px_normalizedDifference :: "real option \<Rightarrow> real option \<Rightarrow> real option" where
  "px_normalizedDifference a b =
     (case a of None \<Rightarrow> None | Some x \<Rightarrow>
      (case b of None \<Rightarrow> None | Some y \<Rightarrow> if x + y = 0 then None else Some ((x - y) / (x + y))))"

definition Image_ndvi :: "image \<Rightarrow> image computed" where
  "Image_ndvi toa_image =
     bind (ee_band toa_image ''nir'') (\<lambda>rn. bind (pixels_of rn) (\<lambda>nir.
     bind (ee_band toa_image ''red'') (\<lambda>rr. bind (pixels_of rr) (\<lambda>red.
       Inr \<lparr>bands = [(''ndvi'', Pixels (\<lambda>p. px_normalizedDifference (nir p) (red p)))],
            props = Map.empty\<rparr>))))"

text \<open>The emissivity of one pixel from its NDVI, step by step as the source builds it.\<close>

definition emissivity_pixel :: "real option \<Rightarrow> real option" where
  "emissivity_pixel nd =
     (let Pv = map_option (\<lambda>n. ((n - 0.2) / 0.3) ^ 2) nd;
          dE = map_option (\<lambda>pv. ((1 - 0.97) * (1 - pv)) * (0.55 * 0.99)) Pv;
          RangeEmiss =
            (case Pv of None \<Rightarrow> None | Some pv \<Rightarrow>
             (case dE of None \<Rightarrow> None | Some de \<Rightarrow> Some ((0.99 * pv) + (0.97 * (1 - pv)) + de)));
          e1 = px_where nd (px_lt nd 0) (Some 0.985);
          e2 = px_where e1 (px_And (px_gte nd 0) (px_lt nd 0.2)) (Some 0.977);
          e3 = px_where e2 (px_gt nd 0.5) (Some 0.99);
          e4 = px_where e3 (px_And (px_gte nd 0.2) (px_lte nd 0.5)) RangeEmiss
      in px_clamp 0.977 0.99 e4)"

definition Image_emissivity :: "image \<Rightarrow> image computed" where
  "Image_emissivity toa_image =
     bind (Image_ndvi toa_image) (\<lambda>ndvi_img. bind (the_band ndvi_img) (\<lambda>nd.
       Inr (copyProperties ndvi_img [''system:index'', ''system:time_start'']
              \<lparr>bands = [(''emissivity'', Pixels (\<lambda>p. emissivity_pixel (nd p)))], props = Map.empty\<rparr>)))"

definition lst_pixel :: "real \<Rightarrow> real \<Rightarrow> real option \<Rightarrow> real option \<Rightarrow> real option" where
  "lst_pixel k1 k2 ts_brightness emiss =
     (case ts_brightness of None \<Rightarrow> None | Some ts \<Rightarrow>
      (case emiss of None \<Rightarrow> None | Some em \<Rightarrow>
       (let thermal_rad_toa = k1 / (exp (k2 / ts) - 1);
            rc = ((thermal_rad_toa - 0.91) / 0.866) - ((1 - em) * 1.32)
        in Some (k2 / ln (em * k1 / rc + 1)))))"

definition Image_lst :: "image \<Rightarrow> image computed" where
  "Image_lst toa_image =
     bind (bind (ee_get toa_image ''k1_constant'') number_of) (\<lambda>k1.
     bind (bind (ee_get toa_image ''k2_constant'') number_of) (\<lambda>k2.
     bind (ee_band toa_image ''lst'') (\<lambda>rt. bind (pixels_of rt) (\<lambda>ts.
     bind (Image_emissivity toa_image) (\<lambda>em_img. bind (the_band em_img) (\<lambda>em.
       Inr \<lparr>bands = [(''lst'', Pixels (\<lambda>p. lst_pixel k1 k2 (ts p) (em p)))], props = Map.empty\<rparr>))))))"

subsection \<open>\<open>from_landsat_c1_toa\<close>\<close>

definition input_bands :: "(string \<times> string list) list" where
  "input_bands =
     [(''LANDSAT_5'', [''B1'', ''B2'', ''B3'', ''B4'', ''B5'', ''B7'', ''B6'', ''BQA'']),
      (''LANDSAT_7'', [''B1'', ''B2'', ''B3'', ''B4'', ''B5'', ''B7'', ''B6_VCID_1'', ''BQA'']),
      (''LANDSAT_8'', [''B2'', ''B3'', ''B4'', ''B5'', ''B6'', ''B7'', ''B10'', ''BQA''])]"

definition output_bands :: "string list" where
  "output_bands = [''blue'', ''green'', ''red'', ''nir'', ''swir1'', ''swir2'', ''lst'', ''BQA'']"

definition k1_dict :: "(string \<times> string) list" where
  "k1_dict =
     [(''LANDSAT_5'', ''K1_CONSTANT_BAND_6''),
      (''LANDSAT_7'', ''K1_CONSTANT_BAND_6_VCID_1''),
      (''LANDSAT_8'', ''K1_CONSTANT_BAND_10'')]"

definition k2_dict :: "(string \<times> string) list" where
  "k2_dict =
     [(''LANDSAT_5'', ''K2_CONSTANT_BAND_6''),
      (''LANDSAT_7'', ''K2_CONSTANT_BAND_6_VCID_1''),
      (''LANDSAT_8'', ''K2_CONSTANT_BAND_10'')]"

text \<open>\<open>ee.Dictionary.get\<close>: a missing key is an error of the substrate.\<close>

definition ee_dict_get :: "(string \<times> 'v) list \<Rightarrow> string \<Rightarrow> 'v computed" where
  "ee_dict_get d k = (case map_of d k of Some v \<Rightarrow> Inr v | None \<Rightarrow> Inl (EEError (''no key '' @ k)))"

definition prep_image :: "image \<Rightarrow> image computed" where
  "prep_image toa_image =
     bind (bind (ee_get toa_image ''SPACECRAFT_ID'') string_of) (\<lambda>spacecraft_id.
     bind (ee_dict_get input_bands spacecraft_id) (\<lambda>ib.
     bind (ee_select ib output_bands toa_image) (\<lambda>sel.
     bind (ee_dict_get k1_dict spacecraft_id) (\<lambda>k1n. bind (ee_get toa_image k1n) (\<lambda>k1v.
     bind (ee_dict_get k2_dict spacecraft_id) (\<lambda>k2n. bind (ee_get toa_image k2n) (\<lambda>k2v.
       Inr (ee_set ''k2_constant'' k2v (ee_set ''k1_constant'' k1v sel)))))))))"

definition from_landsat_c1_toa :: "image computed \<Rightarrow> config \<Rightarrow> Image" where
  "from_landsat_c1_toa toa_image cfg =
     (let input_image =
            bind toa_image (\<lambda>toa. bind (prep_image toa) (\<lambda>prep.
            bind (Image_lst prep) (\<lambda>l. bind (Image_ndvi prep) (\<lambda>n.
            bind (ee_get toa ''system:index'') (\<lambda>i. bind (ee_get toa ''system:time_start'') (\<lambda>t.
              Inr (ee_set ''system:time_start'' t (ee_set ''system:index'' i
                    \<lparr>bands = bands l @ bands n, props = props l\<rparr>))))))))
      in Image_init input_image cfg)"

section \<open>The function \<open>collection\<close>\<close>

definition landsat_c1_toa_collections :: "string list" where
  "landsat_c1_toa_collections =
     [''LANDSAT/LC08/C01/T1_RT_TOA'',
      ''LANDSAT/LE07/C01/T1_RT_TOA'',
      ''LANDSAT/LC08/C01/T1_TOA'',
      ''LANDSAT/LE07/C01/T1_TOA'',
      ''LANDSAT/LT05/C01/T1_TOA'']"

text \<open>
  \<open>dir(Image)\<close>: the names the class defines, and those every Python class inherits from
  \<open>object\<close>. The second test of \<open>collection\<close> admits \<open>etf\<close> alone, so the inherited names
  never decide a call.
\<close>

definition dir_Image :: "string list" where
  "dir_Image =
     [''__class__'', ''__delattr__'', ''__dict__'', ''__dir__'', ''__doc__'', ''__eq__'',
      ''__format__'', ''__ge__'', ''__getattribute__'', ''__gt__'', ''__hash__'', ''__init__'',
      ''__init_subclass__'', ''__le__'', ''__lt__'', ''__module__'', ''__ne__'', ''__new__'',
      ''__reduce__'', ''__reduce_ex__'', ''__repr__'', ''__setattr__'', ''__sizeof__'',
      ''__str__'', ''__subclasshook__'', ''__weakref__'',
      ''_dt'', ''_elev'', ''_emissivity'', ''_lst'', ''_ndvi'', ''_tcorr'', ''_tmax'',
      ''etf'', ''from_landsat_c1_toa'']"

text \<open>
  \<open>getattr(model_obj, variable)\<close> for the one variable that passes the tests; the
  object is built for the one call and dropped.
\<close>

definition compute :: "world \<Rightarrow> string \<Rightarrow> image \<Rightarrow> pyerror + image computed" where
  "compute w variable img =
     (let model_obj = from_landsat_c1_toa (Inr img) default_config
      in if variable = ''etf'' then fst (etf w model_obj)
         else Inl (AttributeError variable))"

text \<open>
  \<open>ee.ImageCollection(coll_id).filterDate(start_date, end_date).filterBounds(geometry)
  .map(compute)\<close>: a Python exception of \<open>compute\<close> leaves \<open>map\<close>; an image that fails on
  the server fails the collection.
\<close>

definition filtered_scenes :: "world \<Rightarrow> string \<Rightarrow> string \<Rightarrow> string \<Rightarrow> geometry \<Rightarrow> image list computed" where
  "filtered_scenes w coll_id start_str end_str geom =
     bind (parse_date w start_str) (\<lambda>s. bind (parse_date w end_str) (\<lambda>e.
       Inr (filter (intersects w geom) (filterDate s e (ImageCollection w coll_id)))))"

definition map_compute :: "world \<Rightarrow> string \<Rightarrow> image list computed \<Rightarrow> pyerror + image list computed" where
  "map_compute w variable coll =
     (case coll of
        Inl e \<Rightarrow> Inr (Inl e)
      | Inr imgs \<Rightarrow> bind (traverse (compute w variable) imgs) (\<lambda>rs. Inr (traverse id rs)))"

definition merge :: "image list computed \<Rightarrow> image list computed \<Rightarrow> image list computed" where
  "merge a b = bind a (\<lambda>xs. bind b (\<lambda>ys. Inr (xs @ ys)))"

text \<open>The loop \<open>for coll_id in collections\<close>, with \<open>variable_coll\<close> as its accumulator.\<close>

fun build_variable_coll ::
  "world \<Rightarrow> string \<Rightarrow> string \<Rightarrow> string \<Rightarrow> geometry \<Rightarrow> image list computed \<Rightarrow> string list \<Rightarrow>
   pyerror + image list computed" where
  "build_variable_coll w variable start_str end_str geom variable_coll [] = Inr variable_coll"
| "build_variable_coll w variable start_str end_str geom variable_coll (coll_id # rest) =
     (if coll_id \<in> set landsat_c1_toa_collections then
        bind (map_compute w variable (filtered_scenes w coll_id start_str end_str geom))
          (\<lambda>var_coll.
             build_variable_coll w variable start_str end_str geom (merge variable_coll var_coll) rest)
      else Inl (ValueError (''unsupported collection: '' @ coll_id)))"

definition collection ::
  "world \<Rightarrow> string \<Rightarrow> string list \<Rightarrow> string \<Rightarrow> string \<Rightarrow> string \<Rightarrow> geometry \<Rightarrow>
   pyerror + image list computed" where
  "collection w variable0 collections start_str end_str t_interval geom =
     (let variable = lower variable0 in
      if lower variable \<notin> set dir_Image then Inl (ValueError (''unsupported variable: '' @ variable))
      else if lower variable \<notin> set [''etf''] then Inl (ValueError (''unsupported variable: '' @ variable))
      else
        bind (build_variable_coll w variable start_str end_str geom (Inr []) collections)
          (\<lambda>variable_coll.
            (let et_reference_coll =
                   bind (traverse (ee_select [''etr''] [''etr'']) (ImageCollection w ''IDAHO_EPSCOR/GRIDMET''))
                     (\<lambda>c. bind (parse_date w start_str) (\<lambda>s. bind (parse_date w end_str) (\<lambda>e.
                        Inr (filterDate s e c))))
             in Inr (daily_et w et_reference_coll variable_coll 32 ''linear''))))"

section \<open>Example data\<close>

text \<open>
  A small catalogue, a scene and some configurations, on which the properties below are
  evaluated. The scene was acquired on 2015-08-05 at 18:30 UTC (day 217 of the year).
\<close>

definition flat :: "real \<Rightarrow> raster" where
  "flat r = Pixels (\<lambda>p. Some r)"

definition dated :: "string \<Rightarrow> real \<Rightarrow> real \<Rightarrow> image" where
  "dated b r t = \<lparr>bands = [(b, flat r)], props = [''system:time_start'' \<mapsto> PyNum t]\<rparr>"

definition example_scene :: image where
  "example_scene =
     \<lparr>bands = [(''lst'', flat 300), (''ndvi'', flat 0.4)],
      props = [''system:index'' \<mapsto> PyStr ''LC08_043033_20150805'',
               ''system:time_start'' \<mapsto> PyNum 1438799400000]\<rparr>"

definition example_world :: world where
  "example_world =
     \<lparr>ImageCollection = (\<lambda>a.
        if a = ''projects/usgs-ssebop/dt/daymet_median_v1'' then [dated ''dt'' 30 996969600000]
        else if a = ''NASA/ORNL/DAYMET_V3'' then [dated ''tmax'' 25 1438819200000]
        else if a = ''projects/usgs-ssebop/tmax/daymet_median_v0'' then [dated ''tmax'' 300 996969600000]
        else if a = ''projects/usgs-ssebop/tmax/topowx_median_v0'' then [dated ''tmax'' 305 996969600000]
        else if a = ''IDAHO_EPSCOR/GRIDMET'' then [dated ''tmmx'' 303 1438732800000]
        else []),
      FeatureCollection = (\<lambda>a.
        if a = ''projects/usgs-ssebop/tcorr/topowx_median_v0_scene''
          then [\<lparr>INDEX = 0, TCORR = 0.98, meta = [''SCENE_ID'' \<mapsto> PyStr ''LC08_043033_20150805'']\<rparr>]
        else if a = ''projects/usgs-ssebop/tcorr/topowx_median_v0_monthly''
          then [\<lparr>INDEX = 1, TCORR = 0.97,
                 meta = [''WRS2_TILE'' \<mapsto> PyStr ''p043r033'', ''MONTH'' \<mapsto> PyNum 8]\<rparr>]
        else if a = ''projects/usgs-ssebop/tcorr/daymet_median_v1_monthly''
          then [\<lparr>INDEX = 1, TCORR = 0.96,
                 meta = [''WRS2_TILE'' \<mapsto> PyStr ''p043r033'', ''MONTH'' \<mapsto> PyNum 8]\<rparr>]
        else []),
      Image_asset = (\<lambda>a. Inl (EEError ''no such asset'')),
      date_today = ''2026-11-04'',
      format_number = (\<lambda>r. ''300''),
      parse_date = (\<lambda>s. Inl (EEError ''no date'')),
      intersects = (\<lambda>g img. True),
      daily_et = (\<lambda>reference sparse days method. sparse)\<rparr>"

definition example_image :: "config \<Rightarrow> Image" where
  "example_image cfg = Image_init (Inr example_scene) cfg"

definition unrecognized_config :: config where
  "unrecognized_config =
     \<lparr>cfg_dt_source = PyStr ''GRIDMET'',
      cfg_elev_source = PyStr ''LIDAR'',
      cfg_tcorr_source = PyStr ''FOO'',
      cfg_tmax_source = PyStr ''PRISM'',
      cfg_elr_flag = False,
      cfg_tdiff_threshold = 15\<rparr>"

definition numeric_string_config :: config where
  "numeric_string_config =
     \<lparr>cfg_dt_source = PyStr ''20'',
      cfg_elev_source = PyStr ''1500.5'',
      cfg_tcorr_source = PyStr ''0.95'',
      cfg_tmax_source = PyStr ''3e2'',
      cfg_elr_flag = False,
      cfg_tdiff_threshold = 15\<rparr>"

text \<open>
  Configurations with a daily Tmax keyword, and the example catalogue without its daily
  DAYMET images.
\<close>

definition daymet_config :: config where
  "daymet_config = default_config\<lparr>cfg_tmax_source := PyStr ''DAYMET''\<rparr>"

definition gridmet_config :: config where
  "gridmet_config = default_config\<lparr>cfg_tmax_source := PyStr ''gridmet''\<rparr>"

definition no_daily_world :: world where
  "no_daily_world =
     example_world\<lparr>ImageCollection :=
       (\<lambda>a. if a = ''NASA/ORNL/DAYMET_V3'' then [] else ImageCollection example_world a)\<rparr>"

definition pixel_value :: "image computed \<Rightarrow> string \<Rightarrow> pixel \<Rightarrow> real option" where
  "pixel_value r b p =
     (case r of
        Inl e \<Rightarrow> None
      | Inr img \<Rightarrow> (case map_of (bands img) b of Some (Pixels f) \<Rightarrow> f p | _ \<Rightarrow> None))"

section \<open>Properties\<close>

subsection \<open>Evaluation of the string functions\<close>

lemma float_ok_examples:
  "float_ok ''0.95''" "float_ok ''20''" "float_ok '' -1_0.5e+3 ''" "float_ok ''.5''" "float_ok ''5.''"
  "float_ok ''NaN''" "\<not> float_ok ''SCENE''" "\<not> float_ok ''1e''" "\<not> float_ok ''1__0''"
  "\<not> float_ok ''''" "\<not> float_ok ''.''" "\<not> float_ok ''DAYMET_MEDIAN_V1''" "\<not> float_ok ''MONTH''"
  by (simp_all add: float_ok_def floatnumber_def number_def exponent_def digitpart_def
      skip_sign_def strip_def is_space_def is_digit_def lower_def lower_char_def
      upper_letters_def lower_letters_def)

subsection \<open>ETf at one pixel\<close>



lemma etf_pixel_masked_input:
  "etf_pixel None t d c thr = None" "etf_pixel l None d c thr = None" "etf_pixel l t None c thr = None"
  by (simp_all add: etf_pixel_def etf_expression_def px_updateMask_def px_lt_def px_clamp_def
      Let_def split: option.splits)


subsection \<open>Emissivity\<close>









subsection \<open>Control flow of the resolvers\<close>

lemma bind_Inl [simp]: "bind (Inl e) f = Inl e"
  by (simp add: bind_def)

lemma bind_Inr [simp]: "bind (Inr x) f = f x"
  by (simp add: bind_def)

lemma py_upper_PyStr [simp]: "py_upper (PyStr s) = Inr (upper s)"
  by (simp add: py_upper_def)

lemma py_lower_PyStr [simp]: "py_lower (PyStr s) = Inr (lower s)"
  by (simp add: py_lower_def)

lemma py_upper_PyNum [simp]: "py_upper (PyNum r) = Inl (AttributeError ''upper'')"
  by (simp add: py_upper_def)

lemma dt_numeric:
  "is_number (dt_source self) \<Longrightarrow> Image_dt w self = Inr (Inr (ee_constant (dt_source self)))"
  by (simp add: Image_dt_def)

lemma dt_v0:
  "dt_source self = PyStr s \<Longrightarrow> \<not> float_ok s \<Longrightarrow> upper s = ''DAYMET_MEDIAN_V0'' \<Longrightarrow>
   Image_dt w self = Inr (dt_lookup w self ''projects/usgs-ssebop/dt/daymet_median_v0'')"
  by (simp add: Image_dt_def)

lemma dt_v1:
  "dt_source self = PyStr s \<Longrightarrow> \<not> float_ok s \<Longrightarrow> upper s = ''DAYMET_MEDIAN_V1'' \<Longrightarrow>
   Image_dt w self = Inr (dt_lookup w self ''projects/usgs-ssebop/dt/daymet_median_v1'')"
  by (simp add: Image_dt_def)

lemma dt_invalid:
  "dt_source self = PyStr s \<Longrightarrow> \<not> float_ok s \<Longrightarrow> upper s \<noteq> ''DAYMET_MEDIAN_V0'' \<Longrightarrow>
   upper s \<noteq> ''DAYMET_MEDIAN_V1'' \<Longrightarrow> Image_dt w self = Inl SysExit"
  by (simp add: Image_dt_def)


lemma elev_invalid:
  "elev_source self = PyStr s \<Longrightarrow> \<not> float_ok s \<Longrightarrow>
   upper s \<notin> {''ASSET'', ''GTOPO'', ''NED'', ''SRTM''} \<Longrightarrow>
   \<not> startswith (lower s) ''projects/'' \<Longrightarrow> \<not> startswith (lower s) ''users/'' \<Longrightarrow>
   Image_elev w self = Inl SysExit"
  by (simp add: Image_elev_def)


lemma tcorr_tmax_invalid:
  "tcorr_source self = PyStr c \<Longrightarrow> \<not> float_ok c \<Longrightarrow> tmax_source self = PyStr s \<Longrightarrow>
   upper s \<notin> set (map fst default_value_dict) \<Longrightarrow> Image_tcorr w self = Inl SysExit"
  by (simp add: Image_tcorr_def)

lemma tcorr_tmax_numeric:
  "tcorr_source self = PyStr c \<Longrightarrow> \<not> float_ok c \<Longrightarrow> tmax_source self = PyNum r \<Longrightarrow>
   Image_tcorr w self = Inl (AttributeError ''upper'')"
  by (simp add: Image_tcorr_def)

lemma tcorr_source_invalid:
  "tcorr_source self = PyStr c \<Longrightarrow> \<not> float_ok c \<Longrightarrow> upper c \<noteq> ''SCENE'' \<Longrightarrow> upper c \<noteq> ''MONTH'' \<Longrightarrow>
   \<exists>e. Image_tcorr w self = Inl e"
  by (cases "tmax_source self")
     (auto simp: Image_tcorr_def Let_def bind_def split: sum.splits)


lemma tmax_invalid:
  "tmax_source self = PyStr s \<Longrightarrow> \<not> float_ok s \<Longrightarrow>
   upper s \<notin> {''CIMIS'', ''DAYMET'', ''GRIDMET'', ''CIMIS_MEDIAN_V1'', ''DAYMET_MEDIAN_V0'',
               ''DAYMET_MEDIAN_V1'', ''GRIDMET_MEDIAN_V1'', ''TOPOWX_MEDIAN_V0''} \<Longrightarrow>
   Image_tmax w self = Inl SysExit"
  by (simp add: Image_tmax_def)

lemma etf_fn_tcorr_fails: "Image_tcorr w self = Inl e \<Longrightarrow> etf_fn w self = Inl e"
  by (simp add: etf_fn_def)

lemma etf_fn_tmax_fails: "Image_tmax w self = Inl e \<Longrightarrow> \<exists>e'. etf_fn w self = Inl e'"
  by (cases "Image_tcorr w self") (auto simp: etf_fn_def)

lemma etf_fn_dt_fails: "Image_dt w self = Inl e \<Longrightarrow> \<exists>e'. etf_fn w self = Inl e'"
  by (cases "Image_tcorr w self"; cases "Image_tmax w self") (auto simp: etf_fn_def)

lemma etf_fails: "etf_fn w self = Inl e \<Longrightarrow> lazy_etf self = None \<Longrightarrow> etf w self = (Inl e, self)"
  by (simp add: etf_def lazy_property_def)


lemma upper_examples:
  "upper ''scene'' = ''SCENE''" "upper ''Month'' = ''MONTH''" "upper ''FOO'' = ''FOO''"
  "upper ''topowx_median_v0'' = ''TOPOWX_MEDIAN_V0''" "lower ''ETF'' = ''etf''" "lower ''NDVI'' = ''ndvi''"
  by (simp_all add: upper_def lower_def upper_char_def lower_char_def upper_letters_def lower_letters_def)

lemmas str_eval = upper_def lower_def upper_char_def lower_char_def upper_letters_def lower_letters_def
  float_ok_def floatnumber_def number_def exponent_def digitpart_def
  skip_sign_def strip_def is_space_def is_digit_def startswith_def

lemma example_image_fields:
  "dt_source (example_image cfg) = cfg_dt_source cfg"
  "elev_source (example_image cfg) = cfg_elev_source cfg"
  "tcorr_source (example_image cfg) = cfg_tcorr_source cfg"
  "tmax_source (example_image cfg) = cfg_tmax_source cfg"
  "tdiff_threshold (example_image cfg) = cfg_tdiff_threshold cfg"
  "lazy_etf (example_image cfg) = None"
  "index (example_image cfg) = Inr (PyStr ''LC08_043033_20150805'')"
  "time_start (example_image cfg) = Inr (PyNum 1438799400000)"
  by (simp_all add: example_image_def Image_init_def Let_def ee_get_def example_scene_def)



lemma floor_example: "\<lfloor>1438799400000::real\<rfloor> = 1438799400000"
  by simp

lemma example_dates_eval:
  "date_to_time_0utc 1438799400000 = 1438732800000"
  "date_month 1438799400000 = 8"
  "date_year 1438799400000 = 2015"
  "getRelative_day_year 1438799400000 = 216"
  by code_simp+

lemma example_image_dates:
  "date (example_image cfg) = Inr 1438799400000"
  "start_date (example_image cfg) = Inr 1438732800000"
  "end_date (example_image cfg) = Inr 1438819200000"
  "month (example_image cfg) = Inr 8"
  "year (example_image cfg) = Inr 2015"
  "doy (example_image cfg) = Inr 217"
  by (simp_all add: example_image_def Image_init_def Let_def ee_get_def example_scene_def
      number_of_def floor_example example_dates_eval ms_per_day_def)

lemma split_example:
  "split_on CHR ''_'' ''LC08_043033_20150805'' = [''LC08'', ''043033'', ''20150805'']"
  by code_simp





text \<open>
  C6. A source value that is a string, does not convert to a float and is not a keyword of
  its parameter (compared in upper case) ends the call with \<open>sys.exit()\<close>: \<open>dt_source\<close>
  outside the two dT datasets; \<open>elev_source\<close> outside the four datasets and without the
  prefix \<open>projects/\<close> or \<open>users/\<close>; \<open>tmax_source\<close> outside the keywords of \<open>_tmax\<close>, and
  outside the default table when \<open>_tcorr\<close> resolves a non-numeric \<open>tcorr_source\<close>. A
  \<open>tcorr_source\<close> other than \<open>SCENE\<close>, \<open>MONTH\<close> or a number ends \<open>_tcorr\<close> with an
  exception. In each case of \<open>_dt\<close>, \<open>_tmax\<close> and \<open>_tcorr\<close> the body of \<open>etf\<close> raises as
  well, and a failed first access of \<open>etf\<close> returns the exception and stores nothing.
\<close>

theorem unrecognized_keyword_fatal:
  "(dt_source self = PyStr sd \<and> \<not> float_ok sd
      \<and> upper sd \<notin> {''DAYMET_MEDIAN_V0'', ''DAYMET_MEDIAN_V1''}
      \<longrightarrow> Image_dt w self = Inl SysExit \<and> (\<exists>e. etf_fn w self = Inl e))
   \<and> (elev_source self = PyStr se \<and> \<not> float_ok se
      \<and> upper se \<notin> {''ASSET'', ''GTOPO'', ''NED'', ''SRTM''}
      \<and> \<not> startswith (lower se) ''projects/'' \<and> \<not> startswith (lower se) ''users/''
      \<longrightarrow> Image_elev w self = Inl SysExit)
   \<and> (tmax_source self = PyStr st \<and> \<not> float_ok st
      \<and> upper st \<notin> {''CIMIS'', ''DAYMET'', ''GRIDMET'', ''CIMIS_MEDIAN_V1'', ''DAYMET_MEDIAN_V0'',
                     ''DAYMET_MEDIAN_V1'', ''GRIDMET_MEDIAN_V1'', ''TOPOWX_MEDIAN_V0''}
      \<longrightarrow> Image_tmax w self = Inl SysExit \<and> (\<exists>e. etf_fn w self = Inl e))
   \<and> (tcorr_source self = PyStr sc \<and> \<not> float_ok sc \<and> tmax_source self = PyStr st
      \<and> upper st \<notin> set (map fst default_value_dict)
      \<longrightarrow> Image_tcorr w self = Inl SysExit \<and> etf_fn w self = Inl SysExit)
   \<and> (tcorr_source self = PyStr sc \<and> \<not> float_ok sc \<and> upper sc \<notin> {''SCENE'', ''MONTH''}
      \<longrightarrow> (\<exists>e. Image_tcorr w self = Inl e \<and> etf_fn w self = Inl e))
   \<and> (etf_fn w self = Inl e \<and> lazy_etf self = None \<longrightarrow> etf w self = (Inl e, self))"
proof (intro conjI impI)
  assume "dt_source self = PyStr sd \<and> \<not> float_ok sd
      \<and> upper sd \<notin> {''DAYMET_MEDIAN_V0'', ''DAYMET_MEDIAN_V1''}"
  then have "Image_dt w self = Inl SysExit" by (simp add: dt_invalid)
  then show "Image_dt w self = Inl SysExit" "\<exists>e. etf_fn w self = Inl e"
    by (simp_all add: etf_fn_dt_fails)
next
  assume "elev_source self = PyStr se \<and> \<not> float_ok se
      \<and> upper se \<notin> {''ASSET'', ''GTOPO'', ''NED'', ''SRTM''}
      \<and> \<not> startswith (lower se) ''projects/'' \<and> \<not> startswith (lower se) ''users/''"
  then show "Image_elev w self = Inl SysExit" by (simp add: elev_invalid)
next
  assume "tmax_source self = PyStr st \<and> \<not> float_ok st
      \<and> upper st \<notin> {''CIMIS'', ''DAYMET'', ''GRIDMET'', ''CIMIS_MEDIAN_V1'', ''DAYMET_MEDIAN_V0'',
                     ''DAYMET_MEDIAN_V1'', ''GRIDMET_MEDIAN_V1'', ''TOPOWX_MEDIAN_V0''}"
  then have "Image_tmax w self = Inl SysExit" by (simp add: tmax_invalid)
  then show "Image_tmax w self = Inl SysExit" "\<exists>e. etf_fn w self = Inl e"
    by (simp_all add: etf_fn_tmax_fails)
next
  assume "tcorr_source self = PyStr sc \<and> \<not> float_ok sc \<and> tmax_source self = PyStr st
      \<and> upper st \<notin> set (map fst default_value_dict)"
  then have "Image_tcorr w self = Inl SysExit" by (simp add: tcorr_tmax_invalid)
  then show "Image_tcorr w self = Inl SysExit" "etf_fn w self = Inl SysExit"
    by (simp_all add: etf_fn_tcorr_fails)
next
  assume "tcorr_source self = PyStr sc \<and> \<not> float_ok sc \<and> upper sc \<notin> {''SCENE'', ''MONTH''}"
  then obtain e where "Image_tcorr w self = Inl e"
    using tcorr_source_invalid [of self sc w] by auto
  then show "\<exists>e. Image_tcorr w self = Inl e \<and> etf_fn w self = Inl e"
    by (auto simp: etf_fn_tcorr_fails)
next
  assume "etf_fn w self = Inl e \<and> lazy_etf self = None"
  then show "etf w self = (Inl e, self)" by (simp add: etf_fails)
qed

lemma unrecognized_config_fields:
  "cfg_dt_source unrecognized_config = PyStr ''GRIDMET''"
  "cfg_elev_source unrecognized_config = PyStr ''LIDAR''"
  "cfg_tcorr_source unrecognized_config = PyStr ''FOO''"
  "cfg_tmax_source unrecognized_config = PyStr ''PRISM''"
  by (simp_all add: unrecognized_config_def)

lemma unrecognized_strings:
  "\<not> float_ok ''GRIDMET''" "\<not> float_ok ''LIDAR''" "\<not> float_ok ''FOO''" "\<not> float_ok ''PRISM''"
  "upper ''GRIDMET'' = ''GRIDMET''" "upper ''LIDAR'' = ''LIDAR''" "upper ''FOO'' = ''FOO''"
  "upper ''PRISM'' = ''PRISM''" "lower ''LIDAR'' = ''lidar''"
  by (simp_all add: str_eval)

text \<open>The configuration \<open>unrecognized_config\<close> has an unrecognized keyword for each parameter.\<close>

theorem unrecognized_keyword_fatal_witness:
  "Image_dt example_world (example_image unrecognized_config) = Inl SysExit
   \<and> Image_elev example_world (example_image unrecognized_config) = Inl SysExit
   \<and> Image_tmax example_world (example_image unrecognized_config) = Inl SysExit
   \<and> Image_tcorr example_world (example_image unrecognized_config) = Inl SysExit
   \<and> etf example_world (example_image unrecognized_config)
       = (Inl SysExit, example_image unrecognized_config)"
  using unrecognized_keyword_fatal [where self = "example_image unrecognized_config"
      and w = example_world and sd = "''GRIDMET''" and se = "''LIDAR''" and st = "''PRISM''"
      and sc = "''FOO''" and e = SysExit]
  by (simp add: example_image_fields unrecognized_config_fields unrecognized_strings
      startswith_def default_value_dict_def)


lemma numeric_string_config_fields:
  "cfg_dt_source numeric_string_config = PyStr ''20''"
  "cfg_elev_source numeric_string_config = PyStr ''1500.5''"
  "cfg_tcorr_source numeric_string_config = PyStr ''0.95''"
  "cfg_tmax_source numeric_string_config = PyStr ''3e2''"
  by (simp_all add: numeric_string_config_def)

lemma numeric_strings:
  "float_ok ''20''" "float_ok ''1500.5''" "float_ok ''0.95''" "float_ok ''3e2''"
  by (simp_all add: str_eval)


lemma dt_lookup_first:
  "doy self = Inr d \<Longrightarrow> filter (calendarRange_doy d d) (ImageCollection w a) = img # rest \<Longrightarrow>
   bands img = [(n, Pixels f)] \<Longrightarrow>
   dt_lookup w self a = Inr \<lparr>bands = [(n, Pixels (\<lambda>p. px_clamp 6 25 (f p)))], props = props img\<rparr>"
  by (simp add: dt_lookup_def doy_filter_def ee_first_def ee_clamp_def map_pixels_def pixels_of_def)

lemma dt_lookup_empty:
  "doy self = Inr d \<Longrightarrow> filter (calendarRange_doy d d) (ImageCollection w a) = [] \<Longrightarrow>
   dt_lookup w self a = Inl (EEError ''empty collection'')"
  by (simp add: dt_lookup_def doy_filter_def ee_first_def)

lemma px_clamp_6_25:
  "px_clamp 6 25 None = None"
  "px_clamp 6 25 (Some x) = Some (max 6 (min 25 x))"
  "6 \<le> max 6 (min 25 x)" "max 6 (min 25 x) \<le> 25"
  by (simp_all add: px_clamp_def)

text \<open>
  C8. A numeric \<open>dt_source\<close> gives the constant image of that value, whose band holds the
  value unchanged. For the keywords \<open>DAYMET_MEDIAN_V0\<close> and \<open>DAYMET_MEDIAN_V1\<close> (in any
  letter case) the result is the first image of the dataset of that version filtered to
  the scene's day of year, every pixel clamped to \<open>[6, 25]\<close>. Every other string that is
  not numeric ends the call with \<open>sys.exit()\<close>.
\<close>

theorem dt_resolution:
  "(is_number (dt_source self) \<longrightarrow> Image_dt w self = Inr (Inr (ee_constant (dt_source self))))
   \<and> bands (ee_constant v) = [(''constant'', Constant v)]
   \<and> (dt_source self = PyStr s \<and> \<not> float_ok s \<and> upper s = ''DAYMET_MEDIAN_V0''
        \<longrightarrow> Image_dt w self = Inr (dt_lookup w self ''projects/usgs-ssebop/dt/daymet_median_v0''))
   \<and> (dt_source self = PyStr s \<and> \<not> float_ok s \<and> upper s = ''DAYMET_MEDIAN_V1''
        \<longrightarrow> Image_dt w self = Inr (dt_lookup w self ''projects/usgs-ssebop/dt/daymet_median_v1''))
   \<and> (dt_source self = PyStr s \<and> \<not> float_ok s
        \<and> upper s \<notin> {''DAYMET_MEDIAN_V0'', ''DAYMET_MEDIAN_V1''}
        \<longrightarrow> Image_dt w self = Inl SysExit)
   \<and> (doy self = Inr d \<and> filter (calendarRange_doy d d) (ImageCollection w a) = img # rest
        \<and> bands img = [(n, Pixels f)]
        \<longrightarrow> dt_lookup w self a =
              Inr \<lparr>bands = [(n, Pixels (\<lambda>p. px_clamp 6 25 (f p)))], props = props img\<rparr>)
   \<and> px_clamp 6 25 None = None
   \<and> px_clamp 6 25 (Some x) = Some (max 6 (min 25 x))
   \<and> 6 \<le> max 6 (min 25 x) \<and> max 6 (min 25 x) \<le> 25"
  using dt_numeric [of self w] dt_v0 [of self s w] dt_v1 [of self s w] dt_invalid [of self s w]
    dt_lookup_first [where self = self and d = d and w = w and a = a and img = img and rest = rest and n = n and f = f]
    px_clamp_6_25
  by (simp add: ee_constant_def)

lemma dt_example_eval:
  "\<lfloor>996969600000::real\<rfloor> = 996969600000"
  "getRelative_day_year 996969600000 = 216"
  by (simp, code_simp)

lemma default_config_fields:
  "cfg_dt_source default_config = PyStr ''DAYMET_MEDIAN_V1''"
  "cfg_elev_source default_config = PyStr ''ASSET''"
  "cfg_tcorr_source default_config = PyStr ''SCENE''"
  "cfg_tmax_source default_config = PyStr ''TOPOWX_MEDIAN_V0''"
  "cfg_tdiff_threshold default_config = 15"
  by (simp_all add: default_config_def)

lemma default_strings:
  "\<not> float_ok ''DAYMET_MEDIAN_V1''" "\<not> float_ok ''ASSET''" "\<not> float_ok ''SCENE''"
  "\<not> float_ok ''TOPOWX_MEDIAN_V0''"
  "upper ''DAYMET_MEDIAN_V1'' = ''DAYMET_MEDIAN_V1''" "upper ''SCENE'' = ''SCENE''"
  "upper ''TOPOWX_MEDIAN_V0'' = ''TOPOWX_MEDIAN_V0''"
  by (simp_all add: str_eval)

text \<open>
  The default \<open>DAYMET_MEDIAN_V1\<close> on the example catalogue, whose dT of 30 for day 217 is
  clamped to 25; the constant \<open>"20"\<close>; the invalid keyword \<open>GRIDMET\<close>.
\<close>

theorem dt_resolution_witness:
  "Image_dt example_world (example_image default_config)
     = Inr (Inr \<lparr>bands = [(''dt'', Pixels (\<lambda>p. px_clamp 6 25 (Some 30)))],
                 props = [''system:time_start'' \<mapsto> PyNum 996969600000]\<rparr>)
   \<and> px_clamp 6 25 (Some 30) = Some 25
   \<and> Image_dt example_world (example_image numeric_string_config)
       = Inr (Inr (ee_constant (PyStr ''20'')))
   \<and> Image_dt example_world (example_image unrecognized_config) = Inl SysExit"
  using dt_resolution [where self = "example_image default_config" and w = example_world
      and s = "''DAYMET_MEDIAN_V1''" and d = 217
      and a = "''projects/usgs-ssebop/dt/daymet_median_v1''"
      and img = "dated ''dt'' 30 996969600000" and rest = "[]" and n = "''dt''"
      and f = "\<lambda>p. Some 30" and x = 30]
    dt_resolution [where self = "example_image numeric_string_config" and w = example_world]
    dt_resolution [where self = "example_image unrecognized_config" and w = example_world
      and s = "''GRIDMET''"]
  by (simp add: example_image_fields example_image_dates default_config_fields default_strings
      numeric_string_config_fields numeric_strings unrecognized_config_fields
      unrecognized_strings example_world_def dated_def flat_def calendarRange_doy_def
      image_time_def dt_example_eval)

subsection \<open>The collection builder\<close>

lemma lower_char_idem: "lower_char (lower_char c) = lower_char c"
  by (simp add: lower_char_def upper_letters_def lower_letters_def)

lemma lower_idem: "lower (lower s) = lower s"
  by (simp add: lower_def lower_char_idem)

lemma Image_init_sources:
  "dt_source (Image_init i cfg) = cfg_dt_source cfg"
  "elev_source (Image_init i cfg) = cfg_elev_source cfg"
  "tcorr_source (Image_init i cfg) = cfg_tcorr_source cfg"
  "tmax_source (Image_init i cfg) = cfg_tmax_source cfg"
  "tdiff_threshold (Image_init i cfg) = cfg_tdiff_threshold cfg"
  "lazy_etf (Image_init i cfg) = None"
  by (simp_all add: Image_init_def Let_def)

lemma tcorr_default_ok:
  "tcorr_source self = PyStr ''SCENE'' \<Longrightarrow> tmax_source self = PyStr ''TOPOWX_MEDIAN_V0'' \<Longrightarrow>
   \<exists>v. Image_tcorr w self = Inr v"
  by (simp add: Image_tcorr_def default_strings default_value_dict_def month_coll_dict_def
      scene_coll_dict_def dict_get_def Let_def)

lemma tmax_default_ok:
  "tmax_source self = PyStr ''TOPOWX_MEDIAN_V0'' \<Longrightarrow> \<exists>v. Image_tmax w self = Inr v"
  by (simp add: Image_tmax_def default_strings)

lemma dt_default_ok:
  "dt_source self = PyStr ''DAYMET_MEDIAN_V1'' \<Longrightarrow> \<exists>v. Image_dt w self = Inr v"
  by (simp add: Image_dt_def default_strings)

lemma etf_fn_default_ok:
  assumes "tcorr_source self = PyStr ''SCENE''" "tmax_source self = PyStr ''TOPOWX_MEDIAN_V0''"
    "dt_source self = PyStr ''DAYMET_MEDIAN_V1''"
  shows "\<exists>v. etf_fn w self = Inr v"
proof -
  obtain a where a: "Image_tcorr w self = Inr a" using tcorr_default_ok assms by blast
  obtain b where b: "Image_tmax w self = Inr b" using tmax_default_ok assms by blast
  obtain c where c: "Image_dt w self = Inr c" using dt_default_ok assms by blast
  show ?thesis by (cases a) (simp add: etf_fn_def a b c)
qed

lemma etf_first_access:
  "lazy_etf self = None \<Longrightarrow> etf_fn w self = Inr v \<Longrightarrow>
   etf w self = (Inr v, self\<lparr>lazy_etf := Some v\<rparr>)"
  by (simp add: etf_def lazy_property_def)

lemma compute_etf_ok: "\<exists>v. compute w ''etf'' img = Inr v"
proof -
  let ?obj = "from_landsat_c1_toa (Inr img) default_config"
  have s: "tcorr_source ?obj = PyStr ''SCENE''" "tmax_source ?obj = PyStr ''TOPOWX_MEDIAN_V0''"
    "dt_source ?obj = PyStr ''DAYMET_MEDIAN_V1''" "lazy_etf ?obj = None"
    by (simp_all add: from_landsat_c1_toa_def Let_def Image_init_sources default_config_fields)
  obtain v where "etf_fn w ?obj = Inr v" using etf_fn_default_ok [OF s(1-3)] by blast
  then have "etf w ?obj = (Inr v, ?obj\<lparr>lazy_etf := Some v\<rparr>)"
    using s(4) by (simp add: etf_first_access)
  then show ?thesis by (simp add: compute_def Let_def)
qed

lemma traverse_compute_ok: "\<exists>vs. traverse (compute w ''etf'') imgs = Inr vs"
proof (induction imgs)
  case Nil
  then show ?case by simp
next
  case (Cons img imgs)
  obtain v where "compute w ''etf'' img = Inr v" using compute_etf_ok by blast
  with Cons show ?case by auto
qed

lemma map_compute_ok: "\<exists>v. map_compute w ''etf'' coll = Inr v"
proof (cases coll)
  case (Inl e)
  then show ?thesis by (simp add: map_compute_def)
next
  case (Inr imgs)
  obtain vs where "traverse (compute w ''etf'') imgs = Inr vs" using traverse_compute_ok by blast
  with Inr show ?thesis by (simp add: map_compute_def)
qed

lemma build_variable_coll_unsupported:
  "filter (\<lambda>c. c \<notin> set landsat_c1_toa_collections) cs \<noteq> [] \<Longrightarrow>
   build_variable_coll w ''etf'' sd ed g acc cs =
     Inl (ValueError (''unsupported collection: ''
            @ hd (filter (\<lambda>c. c \<notin> set landsat_c1_toa_collections) cs)))"
proof (induction cs arbitrary: acc)
  case Nil
  then show ?case by simp
next
  case (Cons c cs)
  show ?case
  proof (cases "c \<in> set landsat_c1_toa_collections")
    case True
    obtain v where v: "map_compute w ''etf'' (filtered_scenes w c sd ed g) = Inr v"
      using map_compute_ok by blast
    from True Cons.prems have "filter (\<lambda>c. c \<notin> set landsat_c1_toa_collections) cs \<noteq> []"
      by simp
    from Cons.IH [OF this] True v show ?thesis by simp
  next
    case False
    then show ?thesis by simp
  qed
qed

lemma build_variable_coll_supported:
  "filter (\<lambda>c. c \<notin> set landsat_c1_toa_collections) cs = [] \<Longrightarrow>
   \<exists>v. build_variable_coll w ''etf'' sd ed g acc cs = Inr v"
proof (induction cs arbitrary: acc)
  case Nil
  then show ?case by simp
next
  case (Cons c cs)
  then have c: "c \<in> set landsat_c1_toa_collections"
    and r: "filter (\<lambda>c. c \<notin> set landsat_c1_toa_collections) cs = []"
    by (simp_all split: if_splits)
  obtain v where v: "map_compute w ''etf'' (filtered_scenes w c sd ed g) = Inr v"
    using map_compute_ok by blast
  from Cons.IH [OF r] c v show ?case by simp
qed

lemma collection_unsupported_variable:
  "lower variable \<noteq> ''etf'' \<Longrightarrow>
   collection w variable cs sd ed ti g = Inl (ValueError (''unsupported variable: '' @ lower variable))"
  by (simp add: collection_def Let_def lower_idem)

lemma lower_etf: "lower ''etf'' = ''etf''"
  by (simp add: str_eval)

lemma etf_in_dir: "''etf'' \<in> set dir_Image"
  by (simp add: dir_Image_def)

lemma collection_unsupported_collection:
  "lower variable = ''etf'' \<Longrightarrow> filter (\<lambda>c. c \<notin> set landsat_c1_toa_collections) cs \<noteq> [] \<Longrightarrow>
   collection w variable cs sd ed ti g =
     Inl (ValueError (''unsupported collection: ''
            @ hd (filter (\<lambda>c. c \<notin> set landsat_c1_toa_collections) cs)))"
  by (simp add: collection_def Let_def lower_etf etf_in_dir build_variable_coll_unsupported)

lemma collection_supported:
  "lower variable = ''etf'' \<Longrightarrow> filter (\<lambda>c. c \<notin> set landsat_c1_toa_collections) cs = [] \<Longrightarrow>
   \<exists>v. collection w variable cs sd ed ti g = Inr v"
  using build_variable_coll_supported [of cs w sd ed g "Inr []"]
  by (auto simp: collection_def Let_def lower_etf etf_in_dir)

text \<open>
  C7. \<open>collection\<close> compares the requested variable in lower case. A variable other than
  \<open>etf\<close> raises \<open>ValueError('unsupported variable: ...')\<close>, whatever the collections are.
  For \<open>etf\<close>, a list that holds an identifier outside the five Landsat Collection 1 TOA
  collections raises \<open>ValueError('unsupported collection: ...')\<close> for the first such
  identifier, so no collection is returned and nothing reaches the interpolation; a list
  of supported identifiers raises nothing.
\<close>

theorem collection_errors:
  "(lower variable \<noteq> ''etf''
      \<longrightarrow> collection w variable cs sd ed ti g
            = Inl (ValueError (''unsupported variable: '' @ lower variable)))
   \<and> (lower variable = ''etf'' \<and> filter (\<lambda>c. c \<notin> set landsat_c1_toa_collections) cs \<noteq> []
      \<longrightarrow> collection w variable cs sd ed ti g
            = Inl (ValueError (''unsupported collection: ''
                     @ hd (filter (\<lambda>c. c \<notin> set landsat_c1_toa_collections) cs))))
   \<and> (lower variable = ''etf'' \<and> filter (\<lambda>c. c \<notin> set landsat_c1_toa_collections) cs = []
      \<longrightarrow> (\<exists>v. collection w variable cs sd ed ti g = Inr v))"
  using collection_unsupported_variable [of variable w cs sd ed ti g]
    collection_unsupported_collection [of variable cs w sd ed ti g]
    collection_supported [of variable cs w sd ed ti g]
  by blast

lemma collection_strings:
  "lower ''ETF'' = ''etf''" "lower ''NDVI'' = ''ndvi''"
  by (simp_all add: str_eval)

text \<open>
  The calls \<open>collection("ETF", ["UNSUPPORTED_SENSOR"], ...)\<close>, the same after a supported
  collection, and \<open>collection("NDVI", ...)\<close>.
\<close>

theorem collection_errors_witness:
  "collection example_world ''ETF'' [''UNSUPPORTED_SENSOR''] ''2015-08-01'' ''2015-09-01''
       ''daily'' (\<lambda>p. True)
     = Inl (ValueError ''unsupported collection: UNSUPPORTED_SENSOR'')
   \<and> collection example_world ''ETF'' [''LANDSAT/LC08/C01/T1_TOA'', ''UNSUPPORTED_SENSOR'']
       ''2015-08-01'' ''2015-09-01'' ''daily'' (\<lambda>p. True)
     = Inl (ValueError ''unsupported collection: UNSUPPORTED_SENSOR'')
   \<and> collection example_world ''NDVI'' [''LANDSAT/LC08/C01/T1_TOA''] ''2015-08-01'' ''2015-09-01''
       ''daily'' (\<lambda>p. True)
     = Inl (ValueError ''unsupported variable: ndvi'')"
  using collection_errors [where variable = "''ETF''" and cs = "[''UNSUPPORTED_SENSOR'']"
      and w = example_world and sd = "''2015-08-01''" and ed = "''2015-09-01''"
      and ti = "''daily''" and g = "\<lambda>p. True"]
    collection_errors [where variable = "''ETF''"
      and cs = "[''LANDSAT/LC08/C01/T1_TOA'', ''UNSUPPORTED_SENSOR'']"
      and w = example_world and sd = "''2015-08-01''" and ed = "''2015-09-01''"
      and ti = "''daily''" and g = "\<lambda>p. True"]
    collection_errors [where variable = "''NDVI''" and cs = "[''LANDSAT/LC08/C01/T1_TOA'']"
      and w = example_world and sd = "''2015-08-01''" and ed = "''2015-09-01''"
      and ti = "''daily''" and g = "\<lambda>p. True"]
  by (simp add: collection_strings landsat_c1_toa_collections_def)

subsection \<open>Scene identity\<close>

lemma build_scene_id_last3:
  assumes "drop (length (split_on CHR ''_'' s) - 3) (split_on CHR ''_'' s) = [a, b, c]"
  shows "build_scene_id (Inr (PyStr s)) = Inr (a @ ''_'' @ b @ ''_'' @ c)"
proof -
  let ?t = "split_on CHR ''_'' s"
  have "slice_from (- 3) ?t = drop (length ?t - 3) ?t"
    by (simp add: slice_from_def nat_diff_distrib')
  then have "slice_from (- 3) ?t = [a, b, c]" using assms by simp
  then show ?thesis
    by (simp add: build_scene_id_def string_of_def Let_def list_get_def)
qed

lemma build_scene_id_short:
  "length (split_on CHR ''_'' s) < 3 \<Longrightarrow>
   build_scene_id (Inr (PyStr s)) = Inl (EEError ''list index out of range'')"
  by (auto simp: build_scene_id_def string_of_def Let_def list_get_def slice_from_def bind_def
      split: sum.splits)

lemma Image_init_scene:
  "props img ''system:index'' = Some v \<Longrightarrow>
   scene_id (Image_init (Inr img) cfg) = build_scene_id (Inr v)"
  "wrs2_tile (Image_init i cfg) = build_wrs2_tile (scene_id (Image_init i cfg))"
  by (simp_all add: Image_init_def Let_def ee_get_def)

lemma etf_state:
  "snd (etf w self) = self \<or> (\<exists>v. snd (etf w self) = self\<lparr>lazy_etf := Some v\<rparr>)"
  by (auto simp: etf_def lazy_property_def Let_def split: option.splits sum.splits)

lemma etf_keeps_identity:
  "scene_id (snd (etf w self)) = scene_id self"
  "wrs2_tile (snd (etf w self)) = wrs2_tile self"
  "index (snd (etf w self)) = index self"
  "time_start (snd (etf w self)) = time_start self"
  "doy (snd (etf w self)) = doy self"
  "month (snd (etf w self)) = month self"
  using etf_state [of w self] by auto

text \<open>
  C5. When the last three \<open>_\<close>-separated tokens of the index string are \<open>a\<close>, \<open>b\<close> and \<open>c\<close>,
  the scene id is \<open>a_b_c\<close> and the WRS2 tile is \<open>p\<close>, the characters \<open>[5, 8)\<close> of the scene
  id, \<open>r\<close> and the characters \<open>[8, 11)\<close>. Both are set by the constructor, and an access of
  \<open>etf\<close>, the only operation that changes the object, leaves them as they are.
\<close>

theorem scene_identity:
  "(props img ''system:index'' = Some (PyStr s)
      \<and> drop (length (split_on CHR ''_'' s) - 3) (split_on CHR ''_'' s) = [a, b, c]
      \<longrightarrow> scene_id (Image_init (Inr img) cfg) = Inr (a @ ''_'' @ b @ ''_'' @ c)
          \<and> wrs2_tile (Image_init (Inr img) cfg)
              = Inr (''p'' @ take 3 (drop 5 (a @ ''_'' @ b @ ''_'' @ c))
                     @ ''r'' @ take 3 (drop 8 (a @ ''_'' @ b @ ''_'' @ c))))
   \<and> scene_id (snd (etf w self)) = scene_id self
   \<and> wrs2_tile (snd (etf w self)) = wrs2_tile self"
proof (intro conjI impI)
  assume h: "props img ''system:index'' = Some (PyStr s)
      \<and> drop (length (split_on CHR ''_'' s) - 3) (split_on CHR ''_'' s) = [a, b, c]"
  then show sid: "scene_id (Image_init (Inr img) cfg) = Inr (a @ ''_'' @ b @ ''_'' @ c)"
    by (simp add: Image_init_scene build_scene_id_last3)
  show "wrs2_tile (Image_init (Inr img) cfg)
              = Inr (''p'' @ take 3 (drop 5 (a @ ''_'' @ b @ ''_'' @ c))
                     @ ''r'' @ take 3 (drop 8 (a @ ''_'' @ b @ ''_'' @ c)))"
    by (simp add: Image_init_scene(2) sid build_wrs2_tile_def str_slice_def)
qed (simp_all add: etf_keeps_identity)

lemma split_merged_example:
  "split_on CHR ''_'' ''1_2_LC08_043033_20150805'' = [''1'', ''2'', ''LC08'', ''043033'', ''20150805'']"
  by code_simp

text \<open>
  The index \<open>LC08_043033_20150805\<close> gives the tile \<open>p043r033\<close>, and so does the merged
  index \<open>1_2_LC08_043033_20150805\<close>.
\<close>

theorem scene_identity_witness:
  "scene_id (Image_init (Inr example_scene) default_config) = Inr ''LC08_043033_20150805''
   \<and> wrs2_tile (Image_init (Inr example_scene) default_config) = Inr ''p043r033''
   \<and> scene_id (Image_init (Inr (ee_set ''system:index'' (PyStr ''1_2_LC08_043033_20150805'') example_scene))
        default_config) = Inr ''LC08_043033_20150805''
   \<and> wrs2_tile (Image_init (Inr (ee_set ''system:index'' (PyStr ''1_2_LC08_043033_20150805'') example_scene))
        default_config) = Inr ''p043r033''"
  using scene_identity [where img = example_scene and s = "''LC08_043033_20150805''"
      and a = "''LC08''" and b = "''043033''" and c = "''20150805''" and cfg = default_config]
    scene_identity [where img = "ee_set ''system:index'' (PyStr ''1_2_LC08_043033_20150805'') example_scene"
      and s = "''1_2_LC08_043033_20150805''"
      and a = "''LC08''" and b = "''043033''" and c = "''20150805''" and cfg = default_config]
  by (simp add: example_scene_def ee_set_def split_example split_merged_example)

subsection \<open>Memoization of \<open>etf\<close>\<close>

lemma etf_stored:
  "lazy_etf self = Some v \<Longrightarrow> etf w self = (Inr v, self)"
  by (simp add: etf_def lazy_property_def)

lemma lazy_property_stored:
  "getattr self = Some v \<Longrightarrow> lazy_property getattr setattr fn self = (Inr v, self)"
  by (simp add: lazy_property_def)

lemma etf_success:
  "etf w self = (Inr v, self') \<Longrightarrow> lazy_etf self' = Some v \<and> self' = self\<lparr>lazy_etf := Some v\<rparr>"
  by (auto simp: etf_def lazy_property_def Let_def split: option.splits sum.splits)

lemma access_all_stored:
  "lazy_etf self = Some v \<Longrightarrow> access_all ws self = (replicate (length ws) (Inr v), self)"
  by (induction ws) (simp_all add: etf_stored)

lemma etf_idempotent: "etf w (snd (etf w self)) = etf w self"
  by (auto simp: etf_def lazy_property_def Let_def split: option.splits sum.splits)

text \<open>
  C9. Accessing \<open>etf\<close> twice gives the same value and the same object as accessing it
  once. The first access of a fresh object that computes a value stores it; once an
  access has returned a value, every later access returns that value and leaves the
  object alone, whatever the world then is and whatever function the property would
  call: the body is not run again and nothing is queried.
\<close>

theorem etf_memoized:
  "etf w (snd (etf w self)) = etf w self
   \<and> (lazy_etf self = None \<and> etf_fn w self = Inr v
        \<longrightarrow> etf w self = (Inr v, self\<lparr>lazy_etf := Some v\<rparr>))
   \<and> (etf w self = (Inr v, self')
        \<longrightarrow> lazy_etf self' = Some v
          \<and> self' = self\<lparr>lazy_etf := Some v\<rparr>
          \<and> etf w' self' = (Inr v, self')
          \<and> lazy_property lazy_etf (\<lambda>v s. s\<lparr>lazy_etf := Some v\<rparr>) fn self' = (Inr v, self')
          \<and> access_all ws self' = (replicate (length ws) (Inr v), self'))"
proof (intro conjI impI)
  show "etf w (snd (etf w self)) = etf w self" by (rule etf_idempotent)
next
  assume "lazy_etf self = None \<and> etf_fn w self = Inr v"
  then show "etf w self = (Inr v, self\<lparr>lazy_etf := Some v\<rparr>)"
    by (simp add: etf_first_access)
next
  assume h: "etf w self = (Inr v, self')"
  then have s: "lazy_etf self' = Some v" and e: "self' = self\<lparr>lazy_etf := Some v\<rparr>"
    using etf_success by blast+
  show "lazy_etf self' = Some v" by (rule s)
  show "self' = self\<lparr>lazy_etf := Some v\<rparr>" by (rule e)
  show "etf w' self' = (Inr v, self')" using s by (rule etf_stored)
  show "lazy_property lazy_etf (\<lambda>v s. s\<lparr>lazy_etf := Some v\<rparr>) fn self' = (Inr v, self')"
    using s by (rule lazy_property_stored)
  show "access_all ws self' = (replicate (length ws) (Inr v), self')"
    using s by (rule access_all_stored)
qed

text \<open>
  Two more accesses of the example image, the second after the Tcorr tables were emptied,
  return what the first access returned.
\<close>

theorem etf_memoized_witness:
  "(\<exists>v. fst (etf example_world (example_image default_config)) = Inr v)
   \<and> access_all [example_world, example_world\<lparr>FeatureCollection := \<lambda>a. []\<rparr>]
        (snd (etf example_world (example_image default_config)))
      = ([fst (etf example_world (example_image default_config)),
          fst (etf example_world (example_image default_config))],
         snd (etf example_world (example_image default_config)))"
proof -
  let ?s = "example_image default_config"
  obtain v where v: "etf_fn example_world ?s = Inr v"
    using etf_fn_default_ok [of ?s example_world]
    by (auto simp: example_image_fields default_config_fields)
  have n: "lazy_etf ?s = None" by (simp add: example_image_fields)
  have e: "etf example_world ?s = (Inr v, ?s\<lparr>lazy_etf := Some v\<rparr>)"
    using etf_memoized [where w = example_world and self = ?s and v = v,
        THEN conjunct2, THEN conjunct1] n v
    by blast
  have a: "access_all [example_world, example_world\<lparr>FeatureCollection := \<lambda>a. []\<rparr>]
             (?s\<lparr>lazy_etf := Some v\<rparr>)
           = (replicate (length [example_world, example_world\<lparr>FeatureCollection := \<lambda>a. []\<rparr>])
                (Inr v), ?s\<lparr>lazy_etf := Some v\<rparr>)"
    using etf_memoized [where w = example_world and self = ?s and v = v
        and self' = "?s\<lparr>lazy_etf := Some v\<rparr>"
        and ws = "[example_world, example_world\<lparr>FeatureCollection := \<lambda>a. []\<rparr>]",
        THEN conjunct2, THEN conjunct2] e
    by blast
  show ?thesis using a by (simp add: e)
qed

subsection \<open>Tcorr precedence\<close>























subsection \<open>Numeric strings are not converted\<close>




subsection \<open>Tmax: the daily keywords and their fallback\<close>

lemma traverse_length: "traverse f xs = Inr ys \<Longrightarrow> length ys = length xs"
proof (induction xs arbitrary: ys)
  case Nil
  then show ?case by simp
next
  case (Cons x xs)
  then show ?case
    by (cases "f x"; cases "traverse f xs") auto
qed

lemma traverse_hd: "traverse f xs = Inr ys \<Longrightarrow> xs \<noteq> [] \<Longrightarrow> f (hd xs) = Inr (hd ys)"
  by (cases xs; cases "f (hd xs)"; cases "traverse f (tl xs)") auto

lemma traverse2_length:
  assumes "bind (traverse f xs) (traverse g) = Inr zs"
  shows "length zs = length xs"
proof -
  obtain ys where ys: "traverse f xs = Inr ys" "traverse g ys = Inr zs"
    using assms by (cases "traverse f xs") auto
  show ?thesis using traverse_length [OF ys(1)] traverse_length [OF ys(2)] by simp
qed

lemma traverse2_hd:
  "bind (traverse f xs) (traverse g) = Inr zs \<Longrightarrow> xs \<noteq> [] \<Longrightarrow> bind (f (hd xs)) g = Inr (hd zs)"
proof -
  assume a: "bind (traverse f xs) (traverse g) = Inr zs" and n: "xs \<noteq> []"
  then obtain ys where ys: "traverse f xs = Inr ys" "traverse g ys = Inr zs"
    by (cases "traverse f xs") auto
  have "ys \<noteq> []" using traverse_length [OF ys(1)] n by auto
  then show ?thesis using traverse_hd [OF ys(1) n] traverse_hd [OF ys(2)] by simp
qed

lemma daily_or_median_daily:
  "ds \<noteq> [] \<Longrightarrow>
   daily_or_median w (Inr ds) med = Inr (ee_set ''TMAX_VERSION'' (PyStr (date_today w)) (hd ds))"
  by (cases ds) (simp_all add: daily_or_median_def Let_def ee_first_def)

lemma daily_or_median_fallback: "daily_or_median w (Inr []) med = med"
  by (simp add: daily_or_median_def Let_def)

lemma tmax_keyword_strings:
  "''DAYMET'' \<noteq> ''CIMIS''" "''GRIDMET'' \<noteq> ''CIMIS''" "''GRIDMET'' \<noteq> ''DAYMET''"
  by simp_all

lemma tmax_daymet:
  "tmax_source self = PyStr s \<Longrightarrow> \<not> float_ok s \<Longrightarrow> upper s = ''DAYMET'' \<Longrightarrow>
   Image_tmax w self =
     Inr (bind (daily_or_median w (daymet_daily w self)
                 (median_image w self ''projects/usgs-ssebop/tmax/daymet_'' ''median_v0''))
            (\<lambda>i. Inr (ee_set ''TMAX_SOURCE'' (PyStr s) i)))"
  by (simp add: Image_tmax_def)

lemma tmax_cimis:
  "tmax_source self = PyStr s \<Longrightarrow> \<not> float_ok s \<Longrightarrow> upper s = ''CIMIS'' \<Longrightarrow>
   Image_tmax w self =
     Inr (bind (daily_or_median w (cimis_daily w self)
                 (median_image w self ''projects/usgs-ssebop/tmax/cimis_'' ''median_v1''))
            (\<lambda>i. Inr (ee_set ''TMAX_SOURCE'' (PyStr s) i)))"
  by (simp add: Image_tmax_def)

lemma tmax_gridmet:
  "tmax_source self = PyStr s \<Longrightarrow> \<not> float_ok s \<Longrightarrow> upper s = ''GRIDMET'' \<Longrightarrow>
   Image_tmax w self =
     Inr (bind (daily_or_median w (gridmet_daily w self)
                 (median_image w self ''projects/usgs-ssebop/tmax/gridmet_'' ''median_v1''))
            (\<lambda>i. Inr (ee_set ''TMAX_SOURCE'' (PyStr s) i)))"
  by (simp add: Image_tmax_def)

lemma tmax_source_tag_aux:
  "bind x (\<lambda>t. Inr (bind t (\<lambda>i. Inr (ee_set k v i)))) = Inr (Inr img) \<Longrightarrow> props img k = Some v"
  by (auto simp: bind_def ee_set_def split: sum.splits)

lemma tmax_source_tag:
  "Image_tmax w self = Inr (Inr img) \<Longrightarrow> props img ''TMAX_SOURCE'' = Some (tmax_source self)"
  unfolding Image_tmax_def by (rule tmax_source_tag_aux)

lemma median_image_first:
  "doy self = Inr d \<Longrightarrow> filter (calendarRange_doy d d) (ImageCollection w (p @ v)) = img # rest \<Longrightarrow>
   median_image w self p v = Inr (ee_set ''TMAX_VERSION'' (PyStr v) img)"
  by (simp add: median_image_def doy_filter_def ee_first_def)

lemma day_window:
  "date_to_time_0utc t = (t div ms_per_day) * ms_per_day"
proof -
  let ?q = "t div 86400000"
  have r: "(t mod 1000) div 1000 = 0" by simp
  have "(t mod 1000 + 1000 * (?q * 86400)) div 1000 = ?q * 86400 + (t mod 1000) div 1000"
    by (rule div_mult_self2) simp
  then have "(?q * 86400000 + t mod 1000) div 1000 = ?q * 86400"
    using r by (simp add: algebra_simps)
  then show ?thesis
    by (simp add: date_to_time_0utc_def update_hms0_def ms_per_day_def)
qed

lemma Image_init_window:
  "props img ''system:time_start'' = Some (PyNum t) \<Longrightarrow>
   start_date (Image_init (Inr img) cfg) = Inr ((\<lfloor>t\<rfloor> div ms_per_day) * ms_per_day)
   \<and> end_date (Image_init (Inr img) cfg) = Inr ((\<lfloor>t\<rfloor> div ms_per_day) * ms_per_day + ms_per_day)"
  by (simp add: Image_init_def Let_def ee_get_def number_of_def day_window)


lemma daymet_daily_eq:
  "start_date self = Inr t0 \<Longrightarrow> end_date self = Inr t1 \<Longrightarrow>
   daymet_daily w self =
     bind (traverse (ee_select [''tmax''] [''tmax''])
            (filterDate t0 (t1 + ms_per_day) (ImageCollection w ''NASA/ORNL/DAYMET_V3'')))
       (traverse c_to_k)"
  by (simp add: daymet_daily_def)

lemma cimis_daily_eq:
  "start_date self = Inr t0 \<Longrightarrow> end_date self = Inr t1 \<Longrightarrow>
   cimis_daily w self =
     bind (traverse (ee_select [''Tx''] [''tmax''])
            (filterDate t0 t1 (ImageCollection w ''projects/climate-engine/cimis/daily'')))
       (traverse c_to_k)"
  by (simp add: cimis_daily_def)

lemma gridmet_daily_eq:
  "start_date self = Inr t0 \<Longrightarrow> end_date self = Inr t1 \<Longrightarrow>
   gridmet_daily w self =
     traverse (ee_select [''tmmx''] [''tmax''])
       (filterDate t0 t1 (ImageCollection w ''IDAHO_EPSCOR/GRIDMET''))"
  by (simp add: gridmet_daily_def)

lemma daily_branch:
  assumes "Image_tmax w self =
     Inr (bind (daily_or_median w daily med) (\<lambda>i. Inr (ee_set ''TMAX_SOURCE'' (PyStr s) i)))"
    and "daily = Inr ds"
  shows "ds \<noteq> [] \<longrightarrow> Image_tmax w self =
           Inr (Inr (ee_set ''TMAX_SOURCE'' (PyStr s)
                  (ee_set ''TMAX_VERSION'' (PyStr (date_today w)) (hd ds))))"
    and "ds = [] \<longrightarrow> Image_tmax w self =
           Inr (bind med (\<lambda>i. Inr (ee_set ''TMAX_SOURCE'' (PyStr s) i)))"
  using assms by (simp_all add: daily_or_median_daily daily_or_median_fallback)

text \<open>
  C4, as the code has it. For \<open>DAYMET\<close> the daily collection is filtered to the two-day
  window from the start of the scene's UTC day to one day after its end; for \<open>CIMIS\<close> and
  \<open>GRIDMET\<close> to the scene's UTC day window itself. The keyword is compared in upper case.
  When the filtered daily collection evaluates to a non-empty collection, the resolver returns
  its first image (the selected band renamed to \<open>tmax\<close>, converted to Kelvin for DAYMET and
  CIMIS) tagged with \<open>TMAX_VERSION\<close> equal to today's date string; when it is empty, the
  resolver returns the median composite of the keyword, which is the first image of the
  median collection on the scene's day of year tagged with the fixed label (\<open>median_v0\<close> for
  DAYMET, \<open>median_v1\<close> for CIMIS and GRIDMET). Every image the resolver returns, in every
  branch, carries \<open>TMAX_SOURCE\<close> equal to the \<open>tmax_source\<close> given, and setting it leaves
  \<open>TMAX_VERSION\<close> as it was. The day window of a scene starts at the midnight before its
  acquisition time and is one day long.
\<close>

theorem tmax_daily_fallback:
  "(tmax_source self = PyStr s \<and> \<not> float_ok s \<and> upper s = ''DAYMET''
      \<and> start_date self = Inr t0 \<and> end_date self = Inr t1 \<and> daymet_daily w self = Inr ds
      \<longrightarrow> length ds
            = length (filterDate t0 (t1 + ms_per_day) (ImageCollection w ''NASA/ORNL/DAYMET_V3''))
          \<and> (ds \<noteq> [] \<longrightarrow>
                Image_tmax w self =
                  Inr (Inr (ee_set ''TMAX_SOURCE'' (PyStr s)
                         (ee_set ''TMAX_VERSION'' (PyStr (date_today w)) (hd ds))))
                \<and> bind (ee_select [''tmax''] [''tmax'']
                          (hd (filterDate t0 (t1 + ms_per_day)
                                 (ImageCollection w ''NASA/ORNL/DAYMET_V3''))))
                     c_to_k = Inr (hd ds))
          \<and> (ds = [] \<longrightarrow>
                Image_tmax w self =
                  Inr (bind (median_image w self ''projects/usgs-ssebop/tmax/daymet_'' ''median_v0'')
                         (\<lambda>i. Inr (ee_set ''TMAX_SOURCE'' (PyStr s) i)))))
   \<and> (tmax_source self = PyStr s \<and> \<not> float_ok s \<and> upper s = ''CIMIS''
      \<and> start_date self = Inr t0 \<and> end_date self = Inr t1 \<and> cimis_daily w self = Inr ds
      \<longrightarrow> length ds
            = length (filterDate t0 t1 (ImageCollection w ''projects/climate-engine/cimis/daily''))
          \<and> (ds \<noteq> [] \<longrightarrow>
                Image_tmax w self =
                  Inr (Inr (ee_set ''TMAX_SOURCE'' (PyStr s)
                         (ee_set ''TMAX_VERSION'' (PyStr (date_today w)) (hd ds))))
                \<and> bind (ee_select [''Tx''] [''tmax'']
                          (hd (filterDate t0 t1
                                 (ImageCollection w ''projects/climate-engine/cimis/daily''))))
                     c_to_k = Inr (hd ds))
          \<and> (ds = [] \<longrightarrow>
                Image_tmax w self =
                  Inr (bind (median_image w self ''projects/usgs-ssebop/tmax/cimis_'' ''median_v1'')
                         (\<lambda>i. Inr (ee_set ''TMAX_SOURCE'' (PyStr s) i)))))
   \<and> (tmax_source self = PyStr s \<and> \<not> float_ok s \<and> upper s = ''GRIDMET''
      \<and> start_date self = Inr t0 \<and> end_date self = Inr t1 \<and> gridmet_daily w self = Inr ds
      \<longrightarrow> length ds = length (filterDate t0 t1 (ImageCollection w ''IDAHO_EPSCOR/GRIDMET''))
          \<and> (ds \<noteq> [] \<longrightarrow>
                Image_tmax w self =
                  Inr (Inr (ee_set ''TMAX_SOURCE'' (PyStr s)
                         (ee_set ''TMAX_VERSION'' (PyStr (date_today w)) (hd ds))))
                \<and> ee_select [''tmmx''] [''tmax'']
                     (hd (filterDate t0 t1 (ImageCollection w ''IDAHO_EPSCOR/GRIDMET'')))
                   = Inr (hd ds))
          \<and> (ds = [] \<longrightarrow>
                Image_tmax w self =
                  Inr (bind (median_image w self ''projects/usgs-ssebop/tmax/gridmet_'' ''median_v1'')
                         (\<lambda>i. Inr (ee_set ''TMAX_SOURCE'' (PyStr s) i)))))
   \<and> (doy self = Inr d \<and> filter (calendarRange_doy d d) (ImageCollection w (p @ v)) = img # rest
      \<longrightarrow> median_image w self p v = Inr (ee_set ''TMAX_VERSION'' (PyStr v) img))
   \<and> (Image_tmax w self = Inr (Inr timg) \<longrightarrow> props timg ''TMAX_SOURCE'' = Some (tmax_source self))
   \<and> props (ee_set ''TMAX_SOURCE'' x (ee_set ''TMAX_VERSION'' y i)) ''TMAX_VERSION'' = Some y
   \<and> (props img0 ''system:time_start'' = Some (PyNum t)
      \<longrightarrow> start_date (Image_init (Inr img0) cfg) = Inr ((\<lfloor>t\<rfloor> div ms_per_day) * ms_per_day)
          \<and> end_date (Image_init (Inr img0) cfg)
              = Inr ((\<lfloor>t\<rfloor> div ms_per_day) * ms_per_day + ms_per_day))"
proof (intro conjI impI)
  assume h: "tmax_source self = PyStr s \<and> \<not> float_ok s \<and> upper s = ''DAYMET''
      \<and> start_date self = Inr t0 \<and> end_date self = Inr t1 \<and> daymet_daily w self = Inr ds"
  let ?c = "filterDate t0 (t1 + ms_per_day) (ImageCollection w ''NASA/ORNL/DAYMET_V3'')"
  from h have e: "bind (traverse (ee_select [''tmax''] [''tmax'']) ?c) (traverse c_to_k) = Inr ds"
    using daymet_daily_eq [of self t0 t1 w] by simp
  show l: "length ds = length ?c" using traverse2_length [OF e] .
  from h have r: "Image_tmax w self =
     Inr (bind (daily_or_median w (daymet_daily w self)
                 (median_image w self ''projects/usgs-ssebop/tmax/daymet_'' ''median_v0''))
            (\<lambda>i. Inr (ee_set ''TMAX_SOURCE'' (PyStr s) i)))"
    by (simp add: tmax_daymet)
  from h have d: "daymet_daily w self = Inr ds" by simp
  {
    assume n: "ds \<noteq> []"
    show "Image_tmax w self =
        Inr (Inr (ee_set ''TMAX_SOURCE'' (PyStr s)
               (ee_set ''TMAX_VERSION'' (PyStr (date_today w)) (hd ds))))"
      using daily_branch(1) [OF r d] n by simp
    from n l have "?c \<noteq> []" by auto
    then show "bind (ee_select [''tmax''] [''tmax''] (hd ?c)) c_to_k = Inr (hd ds)"
      using traverse2_hd [OF e] by simp
  }
  {
    assume "ds = []"
    then show "Image_tmax w self =
        Inr (bind (median_image w self ''projects/usgs-ssebop/tmax/daymet_'' ''median_v0'')
               (\<lambda>i. Inr (ee_set ''TMAX_SOURCE'' (PyStr s) i)))"
      using daily_branch(2) [OF r d] by simp
  }
next
  assume h: "tmax_source self = PyStr s \<and> \<not> float_ok s \<and> upper s = ''CIMIS''
      \<and> start_date self = Inr t0 \<and> end_date self = Inr t1 \<and> cimis_daily w self = Inr ds"
  let ?c = "filterDate t0 t1 (ImageCollection w ''projects/climate-engine/cimis/daily'')"
  from h have e: "bind (traverse (ee_select [''Tx''] [''tmax'']) ?c) (traverse c_to_k) = Inr ds"
    using cimis_daily_eq [of self t0 t1 w] by simp
  show l: "length ds = length ?c" using traverse2_length [OF e] .
  from h have r: "Image_tmax w self =
     Inr (bind (daily_or_median w (cimis_daily w self)
                 (median_image w self ''projects/usgs-ssebop/tmax/cimis_'' ''median_v1''))
            (\<lambda>i. Inr (ee_set ''TMAX_SOURCE'' (PyStr s) i)))"
    by (simp add: tmax_cimis)
  from h have d: "cimis_daily w self = Inr ds" by simp
  {
    assume n: "ds \<noteq> []"
    show "Image_tmax w self =
        Inr (Inr (ee_set ''TMAX_SOURCE'' (PyStr s)
               (ee_set ''TMAX_VERSION'' (PyStr (date_today w)) (hd ds))))"
      using daily_branch(1) [OF r d] n by simp
    from n l have "?c \<noteq> []" by auto
    then show "bind (ee_select [''Tx''] [''tmax''] (hd ?c)) c_to_k = Inr (hd ds)"
      using traverse2_hd [OF e] by simp
  }
  {
    assume "ds = []"
    then show "Image_tmax w self =
        Inr (bind (median_image w self ''projects/usgs-ssebop/tmax/cimis_'' ''median_v1'')
               (\<lambda>i. Inr (ee_set ''TMAX_SOURCE'' (PyStr s) i)))"
      using daily_branch(2) [OF r d] by simp
  }
next
  assume h: "tmax_source self = PyStr s \<and> \<not> float_ok s \<and> upper s = ''GRIDMET''
      \<and> start_date self = Inr t0 \<and> end_date self = Inr t1 \<and> gridmet_daily w self = Inr ds"
  let ?c = "filterDate t0 t1 (ImageCollection w ''IDAHO_EPSCOR/GRIDMET'')"
  from h have e: "traverse (ee_select [''tmmx''] [''tmax'']) ?c = Inr ds"
    using gridmet_daily_eq [of self t0 t1 w] by simp
  show l: "length ds = length ?c" using traverse_length [OF e] .
  from h have r: "Image_tmax w self =
     Inr (bind (daily_or_median w (gridmet_daily w self)
                 (median_image w self ''projects/usgs-ssebop/tmax/gridmet_'' ''median_v1''))
            (\<lambda>i. Inr (ee_set ''TMAX_SOURCE'' (PyStr s) i)))"
    by (simp add: tmax_gridmet)
  from h have d: "gridmet_daily w self = Inr ds" by simp
  {
    assume n: "ds \<noteq> []"
    show "Image_tmax w self =
        Inr (Inr (ee_set ''TMAX_SOURCE'' (PyStr s)
               (ee_set ''TMAX_VERSION'' (PyStr (date_today w)) (hd ds))))"
      using daily_branch(1) [OF r d] n by simp
    from n l have "?c \<noteq> []" by auto
    then show "ee_select [''tmmx''] [''tmax''] (hd ?c) = Inr (hd ds)"
      using traverse_hd [OF e] by simp
  }
  {
    assume "ds = []"
    then show "Image_tmax w self =
        Inr (bind (median_image w self ''projects/usgs-ssebop/tmax/gridmet_'' ''median_v1'')
               (\<lambda>i. Inr (ee_set ''TMAX_SOURCE'' (PyStr s) i)))"
      using daily_branch(2) [OF r d] by simp
  }
next
  assume "doy self = Inr d \<and> filter (calendarRange_doy d d) (ImageCollection w (p @ v)) = img # rest"
  then show "median_image w self p v = Inr (ee_set ''TMAX_VERSION'' (PyStr v) img)"
    by (simp add: median_image_first)
next
  assume "Image_tmax w self = Inr (Inr timg)"
  then show "props timg ''TMAX_SOURCE'' = Some (tmax_source self)" by (rule tmax_source_tag)
next
  show "props (ee_set ''TMAX_SOURCE'' x (ee_set ''TMAX_VERSION'' y i)) ''TMAX_VERSION'' = Some y"
    by (simp add: ee_set_def)
next
  assume h: "props img0 ''system:time_start'' = Some (PyNum t)"
  show "start_date (Image_init (Inr img0) cfg) = Inr ((\<lfloor>t\<rfloor> div ms_per_day) * ms_per_day)"
    using Image_init_window [OF h] by simp
  show "end_date (Image_init (Inr img0) cfg)
              = Inr ((\<lfloor>t\<rfloor> div ms_per_day) * ms_per_day + ms_per_day)"
    using Image_init_window [OF h] by simp
qed

lemma daily_strings:
  "\<not> float_ok ''DAYMET''" "upper ''DAYMET'' = ''DAYMET''"
  "\<not> float_ok ''gridmet''" "upper ''gridmet'' = ''GRIDMET''"
  by (simp_all add: str_eval)

lemma daily_config_fields:
  "tmax_source (example_image daymet_config) = PyStr ''DAYMET''"
  "tmax_source (example_image gridmet_config) = PyStr ''gridmet''"
  by (simp_all add: example_image_fields daymet_config_def gridmet_config_def)

lemma daily_floor_eval:
  "\<lfloor>1438819200000::real\<rfloor> = 1438819200000"
  "\<lfloor>1438732800000::real\<rfloor> = 1438732800000"
  by simp_all

lemma example_daymet_window:
  "filterDate 1438732800000 1438819200000 (ImageCollection example_world ''NASA/ORNL/DAYMET_V3'') = []"
  "filterDate 1438732800000 (1438819200000 + ms_per_day)
     (ImageCollection example_world ''NASA/ORNL/DAYMET_V3'') = [dated ''tmax'' 25 1438819200000]"
  "filterDate 1438732800000 (1438819200000 + ms_per_day)
     (ImageCollection no_daily_world ''NASA/ORNL/DAYMET_V3'') = []"
  "filterDate 1438732800000 1438819200000 (ImageCollection example_world ''IDAHO_EPSCOR/GRIDMET'')
     = [dated ''tmmx'' 303 1438732800000]"
  by (simp_all add: example_world_def no_daily_world_def filterDate_def image_time_def dated_def
      daily_floor_eval ms_per_day_def)

lemma example_daymet_daily:
  "\<exists>x. daymet_daily example_world (example_image cfg) = Inr [x]"
  "daymet_daily no_daily_world (example_image cfg) = Inr []"
  "\<exists>x. gridmet_daily example_world (example_image cfg) = Inr [x]"
  by (simp_all add: daymet_daily_eq [OF example_image_dates(2,3)]
      gridmet_daily_eq [OF example_image_dates(2,3)] example_daymet_window
      dated_def flat_def ee_select_def ee_band_def c_to_k_def ee_add_def map_pixels_def
      pixels_of_def copyProperties_def)

lemma example_daymet_median:
  "median_image no_daily_world (example_image cfg) ''projects/usgs-ssebop/tmax/daymet_'' ''median_v0''
     = Inr (ee_set ''TMAX_VERSION'' (PyStr ''median_v0'') (dated ''tmax'' 300 996969600000))"
  by (rule median_image_first [where d = 217 and rest = "[]"])
     (simp_all add: example_image_dates no_daily_world_def example_world_def calendarRange_doy_def
        image_time_def dated_def dt_example_eval)

text \<open>
  The scene of 2015-08-05 with \<open>tmax_source = 'DAYMET'\<close>: a daily image gives today's date as
  version, a catalogue without daily images gives \<open>median_v0\<close>; \<open>'gridmet'\<close> with a daily image
  of the scene's day; the source tag is the keyword as given.
\<close>

theorem tmax_daily_fallback_witness:
  "result_prop (Image_tmax example_world (example_image daymet_config)) ''TMAX_VERSION''
     = Some (PyStr ''2026-11-04'')
   \<and> result_prop (Image_tmax example_world (example_image daymet_config)) ''TMAX_SOURCE''
     = Some (PyStr ''DAYMET'')
   \<and> result_prop (Image_tmax no_daily_world (example_image daymet_config)) ''TMAX_VERSION''
     = Some (PyStr ''median_v0'')
   \<and> result_prop (Image_tmax no_daily_world (example_image daymet_config)) ''TMAX_SOURCE''
     = Some (PyStr ''DAYMET'')
   \<and> result_prop (Image_tmax example_world (example_image gridmet_config)) ''TMAX_VERSION''
     = Some (PyStr ''2026-11-04'')
   \<and> result_prop (Image_tmax example_world (example_image gridmet_config)) ''TMAX_SOURCE''
     = Some (PyStr ''gridmet'')"
proof -
  let ?d = "example_image daymet_config"
  let ?g = "example_image gridmet_config"
  obtain x where x: "daymet_daily example_world ?d = Inr [x]"
    using example_daymet_daily(1) by blast
  obtain y where y: "gridmet_daily example_world ?g = Inr [y]"
    using example_daymet_daily(3) by blast
  have a: "Image_tmax example_world ?d =
      Inr (Inr (ee_set ''TMAX_SOURCE'' (PyStr ''DAYMET'')
             (ee_set ''TMAX_VERSION'' (PyStr (date_today example_world)) (hd [x]))))"
    using tmax_daily_fallback [where self = ?d and s = "''DAYMET''" and w = example_world
        and ?t0.0 = 1438732800000 and ?t1.0 = 1438819200000 and ds = "[x]", THEN conjunct1]
      daily_config_fields(1) daily_strings(1,2) example_image_dates(2,3) [of daymet_config] x
    by blast
  have b: "Image_tmax no_daily_world ?d =
      Inr (bind (median_image no_daily_world ?d ''projects/usgs-ssebop/tmax/daymet_'' ''median_v0'')
             (\<lambda>i. Inr (ee_set ''TMAX_SOURCE'' (PyStr ''DAYMET'') i)))"
    using tmax_daily_fallback [where self = ?d and s = "''DAYMET''" and w = no_daily_world
        and ?t0.0 = 1438732800000 and ?t1.0 = 1438819200000 and ds = "[]", THEN conjunct1]
      daily_config_fields(1) daily_strings(1,2) example_image_dates(2,3) [of daymet_config]
      example_daymet_daily(2) [of daymet_config]
    by blast
  have c: "Image_tmax example_world ?g =
      Inr (Inr (ee_set ''TMAX_SOURCE'' (PyStr ''gridmet'')
             (ee_set ''TMAX_VERSION'' (PyStr (date_today example_world)) (hd [y]))))"
    using tmax_daily_fallback [where self = ?g and s = "''gridmet''" and w = example_world
        and ?t0.0 = 1438732800000 and ?t1.0 = 1438819200000 and ds = "[y]",
        THEN conjunct2, THEN conjunct2, THEN conjunct1]
      daily_config_fields(2) daily_strings(3,4) example_image_dates(2,3) [of gridmet_config] y
    by blast
  have t: "date_today example_world = ''2026-11-04''" by (simp add: example_world_def)
  show ?thesis
    by (simp add: a b c t example_daymet_median result_prop_def ee_set_def)
qed

text \<open>
  The only daily DAYMET image of the example catalogue is dated 2015-08-06T00:00 UTC, the
  first instant after the day window of the scene; the resolver still uses it.
\<close>

theorem tmax_daily_fallback_counterexample:
  "start_date (example_image daymet_config) = Inr 1438732800000
   \<and> end_date (example_image daymet_config) = Inr 1438819200000
   \<and> filterDate 1438732800000 1438819200000
       (ImageCollection example_world ''NASA/ORNL/DAYMET_V3'') = []
   \<and> result_prop (Image_tmax example_world (example_image daymet_config)) ''TMAX_VERSION''
       = Some (PyStr ''2026-11-04'')
   \<and> result_prop (Image_tmax example_world (example_image daymet_config)) ''TMAX_VERSION''
       \<noteq> Some (PyStr ''median_v0'')"
proof -
  let ?d = "example_image daymet_config"
  obtain x where x: "daymet_daily example_world ?d = Inr [x]"
    using example_daymet_daily(1) by blast
  have "Image_tmax example_world ?d =
      Inr (bind (daily_or_median example_world (daymet_daily example_world ?d)
                  (median_image example_world ?d ''projects/usgs-ssebop/tmax/daymet_'' ''median_v0''))
             (\<lambda>i. Inr (ee_set ''TMAX_SOURCE'' (PyStr ''DAYMET'') i)))"
    using tmax_daymet [OF daily_config_fields(1) daily_strings(1,2)] .
  moreover have "date_today example_world = ''2026-11-04''" by (simp add: example_world_def)
  ultimately have "Image_tmax example_world ?d =
      Inr (Inr (ee_set ''TMAX_SOURCE'' (PyStr ''DAYMET'')
             (ee_set ''TMAX_VERSION'' (PyStr ''2026-11-04'') x)))"
    by (simp add: x daily_or_median_daily)
  then show ?thesis
    by (simp add: example_image_dates example_daymet_window(1) result_prop_def ee_set_def)
qed

end
